theory Spec2Isabelle
  imports Main "HOL-Library.Sublist" "HOL-Library.Multiset"
begin

section \<open>Data model (src/types.ts)\<close>

text \<open>
  JavaScript strings are modelled as \<open>string\<close>: a list of code units, here restricted to
  the code units 0..255 that \<open>char\<close> offers. Numbers that the code only uses as lengths,
  indices and counters are \<open>nat\<close>; \<open>lastIndexOf\<close>, which can answer -1, is \<open>int\<close>.
\<close>

datatype UrlProtocol = Http | Https | Ftp | File | Mailto | Tel | UnknownProtocol

datatype FileType =
    FT_markdown | FT_html | FT_css | FT_javascript | FT_typescript | FT_json
  | FT_yaml | FT_yml | FT_properties | FT_toml | FT_ini | FT_xml | FT_unknown

record Position =
  line :: nat
  column :: nat

record Url =
  val :: string
  protocol :: UrlProtocol
  type :: "string option"
  domain :: "string option"
  path :: "string option"
  position :: "Position option"
  ctx :: "string option"

datatype ErrorCategory =
    Parsing | Validation | FileSystem | Configuration | UrlValidation | Analysis
  | Performance | UnknownCategory

datatype ErrorSeverity = Info | Warning | Error | Critical

datatype RecoveryAction = Retry | Fallback | UserAction | Skip | Abort | Truncate

record ParseError =
  category :: ErrorCategory
  severity :: ErrorSeverity
  message :: string
  recoverable :: bool
  recoveryAction :: RecoveryAction
  timestamp :: nat

record ExtractionResult =
  success :: bool
  urls :: "Url list"
  errors :: "ParseError list"
  fileType :: FileType

text \<open>
  A thrown JavaScript value: either an \<open>Error\<close> object, of which the code reads the
  message, or any other value.
\<close>

datatype thrown = ErrorObject string | OtherValue

section \<open>String operations of the platform\<close>

text \<open>
  \<open>String.prototype.trim\<close> and the class \<open>\s\<close> of regular expressions share one set of
  white space; among the code units 0..255 these are TAB, LF, VT, FF, CR, SPACE and NBSP.
\<close>

definition isWhiteSpace :: "char \<Rightarrow> bool" where
  "isWhiteSpace c \<longleftrightarrow>
     c = CHR 0x09 \<or> c = CHR 0x0A \<or> c = CHR 0x0B \<or> c = CHR 0x0C \<or> c = CHR 0x0D
     \<or> c = CHR 0x20 \<or> c = CHR 0xA0"

definition trim :: "string \<Rightarrow> string" where
  "trim s = rev (dropWhile isWhiteSpace (rev (dropWhile isWhiteSpace s)))"

text \<open>
  \<open>toLowerCase\<close> on the code units 0..255: the letters A..Z and the Latin-1 capitals
  U+00C0..U+00DE (without the multiplication sign U+00D7) move to their small letters,
  32 code units up.
\<close>

definition capitalLetters :: string where
  "capitalLetters = ''ABCDEFGHIJKLMNOPQRSTUVWXYZ'' @
     [CHR 0xC0, CHR 0xC1, CHR 0xC2, CHR 0xC3, CHR 0xC4, CHR 0xC5, CHR 0xC6, CHR 0xC7,
      CHR 0xC8, CHR 0xC9, CHR 0xCA, CHR 0xCB, CHR 0xCC, CHR 0xCD, CHR 0xCE, CHR 0xCF,
      CHR 0xD0, CHR 0xD1, CHR 0xD2, CHR 0xD3, CHR 0xD4, CHR 0xD5, CHR 0xD6,
      CHR 0xD8, CHR 0xD9, CHR 0xDA, CHR 0xDB, CHR 0xDC, CHR 0xDD, CHR 0xDE]"

definition smallLetters :: string where
  "smallLetters = ''abcdefghijklmnopqrstuvwxyz'' @
     [CHR 0xE0, CHR 0xE1, CHR 0xE2, CHR 0xE3, CHR 0xE4, CHR 0xE5, CHR 0xE6, CHR 0xE7,
      CHR 0xE8, CHR 0xE9, CHR 0xEA, CHR 0xEB, CHR 0xEC, CHR 0xED, CHR 0xEE, CHR 0xEF,
      CHR 0xF0, CHR 0xF1, CHR 0xF2, CHR 0xF3, CHR 0xF4, CHR 0xF5, CHR 0xF6,
      CHR 0xF8, CHR 0xF9, CHR 0xFA, CHR 0xFB, CHR 0xFC, CHR 0xFD, CHR 0xFE]"

definition lowerChar :: "char \<Rightarrow> char" where
  "lowerChar c = (case map_of (zip capitalLetters smallLetters) c of None \<Rightarrow> c | Some l \<Rightarrow> l)"

definition toLowerCase :: "string \<Rightarrow> string" where
  "toLowerCase s = map lowerChar s"

definition startsWith :: "string \<Rightarrow> string \<Rightarrow> bool" where
  "startsWith s p \<longleftrightarrow> take (length p) s = p"

text \<open>\<open>content.split('\\n')\<close>: always at least one piece.\<close>

fun splitLines :: "string \<Rightarrow> string list" where
  "splitLines [] = [[]]"
| "splitLines (c # cs) =
     (if c = CHR 0x0A then [] # splitLines cs
      else (case splitLines cs of [] \<Rightarrow> [[c]] | l # ls \<Rightarrow> (c # l) # ls))"

text \<open>\<open>s.lastIndexOf(p)\<close>: the greatest index at which \<open>p\<close> occurs in \<open>s\<close>, or -1.\<close>

fun lastIndexFrom :: "string \<Rightarrow> string \<Rightarrow> nat \<Rightarrow> int \<Rightarrow> int" where
  "lastIndexFrom p [] i found = (if p = [] then int i else found)"
| "lastIndexFrom p (c # cs) i found =
     lastIndexFrom p cs (Suc i) (if startsWith (c # cs) p then int i else found)"

definition lastIndexOf :: "string \<Rightarrow> string \<Rightarrow> int" where
  "lastIndexOf s p = lastIndexFrom p s 0 (- 1)"

text \<open>Template literals print a number in decimal.\<close>

definition digit_char :: "nat \<Rightarrow> char" where
  "digit_char d = ''0123456789'' ! d"

fun string_of_nat :: "nat \<Rightarrow> string" where
  "string_of_nat n =
     (if n < 10 then [digit_char n] else string_of_nat (n div 10) @ [digit_char (n mod 10)])"

declare string_of_nat.simps [simp del]

section \<open>Regular expressions of the scanners\<close>

text \<open>
  Each pattern is modelled by a function that tries it at the start of a suffix of the line
  and answers the length of the match and the text the code reads from it (the whole
  match or a group). No pattern has an anchor or looks behind, so the suffix decides.
  \<open>execAll\<close> is the loop \<open>while ((match = pattern.exec(line)) !== null)\<close> of a pattern with
  the flag \<open>g\<close> after \<open>lastIndex = 0\<close>: the leftmost match at or after \<open>lastIndex\<close>, then
  again from its end. Every pattern consumes at least one code unit.
\<close>

type_synonym matcher = "string \<Rightarrow> (nat \<times> string) option"

fun execAll :: "matcher \<Rightarrow> string \<Rightarrow> nat \<Rightarrow> (nat \<times> string) list" where
  "execAll m [] i = []"
| "execAll m (c # cs) i =
     (case m (c # cs) of
        None \<Rightarrow> execAll m cs (Suc i)
      | Some (len, g) \<Rightarrow> (i, g) # execAll m (drop (len - 1) cs) (i + len))"

text \<open>The class \<open>[^\s<>"{}|\\^`[\];)']\<close> excludes white space and fourteen delimiters.\<close>

definition isTerminator :: "char \<Rightarrow> bool" where
  "isTerminator c \<longleftrightarrow>
     isWhiteSpace c \<or> c = CHR ''<'' \<or> c = CHR ''>'' \<or> c = CHR 0x22 \<or> c = CHR ''{''
     \<or> c = CHR ''}'' \<or> c = CHR ''|'' \<or> c = CHR 0x5C \<or> c = CHR ''^'' \<or> c = CHR 0x60
     \<or> c = CHR ''['' \<or> c = CHR '']'' \<or> c = CHR '';'' \<or> c = CHR '')'' \<or> c = CHR 0x27"

fun firstPrefix :: "string list \<Rightarrow> string \<Rightarrow> string option" where
  "firstPrefix [] s = None"
| "firstPrefix (p # ps) s = (if startsWith s p then Some p else firstPrefix ps s)"

text \<open>
  A plain pattern \<open>(prefix[^...]+)\<close>: one of the literal prefixes, then the longest run,
  at least one long, of code units outside the terminator class. The code reads the
  whole match.
\<close>

definition matchPlain :: "string list \<Rightarrow> matcher" where
  "matchPlain ps s =
     (case firstPrefix ps s of
        None \<Rightarrow> None
      | Some p \<Rightarrow>
          (let body = takeWhile (\<lambda>c. \<not> isTerminator c) (drop (length p) s) in
           if body = [] then None else Some (length p + length body, p @ body)))"

definition URL_PATTERN :: matcher where
  "URL_PATTERN = matchPlain [''https://'', ''http://'']"

definition FTP_PATTERN :: matcher where
  "FTP_PATTERN = matchPlain [''ftp://'']"

definition MAILTO_PATTERN :: matcher where
  "MAILTO_PATTERN = matchPlain [''mailto:'']"

definition TEL_PATTERN :: matcher where
  "TEL_PATTERN = matchPlain [''tel:'']"

definition FILE_PATTERN :: matcher where
  "FILE_PATTERN = matchPlain [''file://'']"

text \<open>
  The attribute patterns carry the flag \<open>i\<close>. Their letters are ASCII, and a code unit
  matches such a letter exactly when it is that letter in either case.
\<close>

definition asciiUpper :: "char \<Rightarrow> char" where
  "asciiUpper c =
     (case map_of (zip ''abcdefghijklmnopqrstuvwxyz'' ''ABCDEFGHIJKLMNOPQRSTUVWXYZ'') c of
        None \<Rightarrow> c | Some u \<Rightarrow> u)"

definition startsWithCI :: "string \<Rightarrow> string \<Rightarrow> bool" where
  "startsWithCI s p \<longleftrightarrow> map asciiUpper (take (length p) s) = map asciiUpper p"

definition isQuote :: "char \<Rightarrow> bool" where
  "isQuote c \<longleftrightarrow> c = CHR 0x22 \<or> c = CHR 0x27"

text \<open>
  \<open>name\s*=\s*["']([^"']+)["']\<close> with the flags \<open>gi\<close>; the code reads group 1.
\<close>

definition matchAttribute :: "string \<Rightarrow> matcher" where
  "matchAttribute name s =
     (if \<not> startsWithCI s name then None
      else
        (case dropWhile isWhiteSpace (drop (length name) s) of
           [] \<Rightarrow> None
         | e # r2 \<Rightarrow>
             if e \<noteq> CHR ''='' then None
             else
               (case dropWhile isWhiteSpace r2 of
                  [] \<Rightarrow> None
                | q # r4 \<Rightarrow>
                    if \<not> isQuote q then None
                    else
                      (let v = takeWhile (\<lambda>c. \<not> isQuote c) r4 in
                       if v = [] then None
                       else
                         (case drop (length v) r4 of
                            [] \<Rightarrow> None
                          | q' # r6 \<Rightarrow> Some (length s - length r6, v))))))"

definition HREF_PATTERN :: matcher where
  "HREF_PATTERN = matchAttribute ''href''"

definition SRC_PATTERN :: matcher where
  "SRC_PATTERN = matchAttribute ''src''"

definition ACTION_PATTERN :: matcher where
  "ACTION_PATTERN = matchAttribute ''action''"

text \<open>\<open>\[([^\]]+)\]\(([^)]+)\)\<close>; the code reads group 2, the link target.\<close>

definition MARKDOWN_LINK_PATTERN :: matcher where
  "MARKDOWN_LINK_PATTERN s =
     (case s of
        [] \<Rightarrow> None
      | b # r \<Rightarrow>
          if b \<noteq> CHR ''['' then None
          else
            (let label = takeWhile (\<lambda>c. c \<noteq> CHR '']'') r in
             if label = [] then None
             else
               (case drop (length label) r of
                  c1 # c2 # r2 \<Rightarrow>
                    if c1 = CHR '']'' \<and> c2 = CHR ''('' then
                      (let target = takeWhile (\<lambda>c. c \<noteq> CHR '')'') r2 in
                       if target = [] then None
                       else
                         (case drop (length target) r2 of
                            [] \<Rightarrow> None
                          | c3 # r3 \<Rightarrow> Some (length s - length r3, target)))
                    else None
                | _ \<Rightarrow> None)))"

text \<open>\<open><([^>]+)>\<close>; the code reads group 1.\<close>

definition MARKDOWN_AUTOLINK_PATTERN :: matcher where
  "MARKDOWN_AUTOLINK_PATTERN s =
     (case s of
        [] \<Rightarrow> None
      | b # r \<Rightarrow>
          if b \<noteq> CHR ''<'' then None
          else
            (let target = takeWhile (\<lambda>c. c \<noteq> CHR ''>'') r in
             if target = [] then None
             else
               (case drop (length target) r of
                  [] \<Rightarrow> None
                | c3 # r3 \<Rightarrow> Some (length s - length r3, target))))"

section \<open>Lines, try blocks and the console\<close>

text \<open>
  Every scanner walks \<open>lines.forEach((line, lineIndex) => ...)\<close> and wraps the work on a
  line in \<open>try { ... } catch (error) { console.warn(..., error) }\<close>. A try block is a
  function from the state of the scan to the state at which the block ended, together
  with the value thrown if it ended by a throw. The console is the list of warnings.
\<close>

type_synonym console = "(string \<times> thrown) list"

type_synonym 'st block = "'st \<Rightarrow> 'st \<times> thrown option"

definition regexErrorMessage :: "nat \<Rightarrow> string" where
  "regexErrorMessage lineIndex =
     ''[URLs-LE] Regex error on line '' @ string_of_nat (lineIndex + 1) @ '':''"

definition tryCatchWarn :: "nat \<Rightarrow> 'st block \<Rightarrow> 'st \<times> console \<Rightarrow> 'st \<times> console" where
  "tryCatchWarn lineIndex blk sc =
     (case blk (fst sc) of
        (st', None) \<Rightarrow> (st', snd sc)
      | (st', Some e) \<Rightarrow> (st', snd sc @ [(regexErrorMessage lineIndex, e)]))"

fun forEachLine :: "(string \<Rightarrow> nat \<Rightarrow> 'a \<Rightarrow> 'a) \<Rightarrow> string list \<Rightarrow> nat \<Rightarrow> 'a \<Rightarrow> 'a" where
  "forEachLine f [] i a = a"
| "forEachLine f (l # ls) i a = forEachLine f ls (Suc i) (f l i a)"

text \<open>
  The common shape of a scanner: split the document, run the try block of every line in
  turn from the initial state, with an empty console.
\<close>

definition scanLines :: "(string \<Rightarrow> nat \<Rightarrow> 'st block) \<Rightarrow> 'st \<Rightarrow> string \<Rightarrow> 'st \<times> console" where
  "scanLines blk init content =
     forEachLine (\<lambda>ln i. tryCatchWarn i (blk ln i)) (splitLines content) 0 (init, [])"

section \<open>YAML scanner (src/extraction/formats/yaml.ts)\<close>

text \<open>
  Each of the five loops pushes one token per match, with the protocol written in the
  loop. The matches of a pattern do not depend on the tokens pushed so far, so the loop
  appends the tokens of all its matches.
\<close>

definition pushMatches ::
  "(nat \<times> string) list \<Rightarrow> UrlProtocol \<Rightarrow> string \<Rightarrow> nat \<Rightarrow> Url list \<Rightarrow> Url list" where
  "pushMatches ms proto ln lineIndex us =
     us @ map (\<lambda>(i, v).
            \<lparr>val = v, protocol = proto, type = None, domain = None, path = None,
             position = Some \<lparr>line = lineIndex + 1, column = i + 1\<rparr>,
             ctx = Some (trim ln)\<rparr>) ms"

definition yamlLine :: "string \<Rightarrow> nat \<Rightarrow> Url list block" where
  "yamlLine ln lineIndex us =
     (let us1 = pushMatches (execAll URL_PATTERN ln 0) Https ln lineIndex us;
          us2 = pushMatches (execAll FTP_PATTERN ln 0) Ftp ln lineIndex us1;
          us3 = pushMatches (execAll MAILTO_PATTERN ln 0) Mailto ln lineIndex us2;
          us4 = pushMatches (execAll TEL_PATTERN ln 0) Tel ln lineIndex us3;
          us5 = pushMatches (execAll FILE_PATTERN ln 0) File ln lineIndex us4
      in (us5, None))"

definition extractFromYaml :: "string \<Rightarrow> Url list" where
  "extractFromYaml content =
     fst (scanLines yamlLine [] content)"

section \<open>Properties scanner (src/extraction/formats/properties.ts)\<close>

text \<open>
  Comment lines and empty lines leave the try block at once. The first loop reads the
  protocol off the match: \<open>https\<close> when it starts with \<open>https\<close>, \<open>http\<close> otherwise.
\<close>

definition pushHttpMatches ::
  "(nat \<times> string) list \<Rightarrow> string \<Rightarrow> nat \<Rightarrow> Url list \<Rightarrow> Url list" where
  "pushHttpMatches ms ln lineIndex us =
     us @ map (\<lambda>(i, v).
            \<lparr>val = v, protocol = (if startsWith v ''https'' then Https else Http),
             type = None, domain = None, path = None,
             position = Some \<lparr>line = lineIndex + 1, column = i + 1\<rparr>,
             ctx = Some (trim ln)\<rparr>) ms"

definition propertiesLine :: "string \<Rightarrow> nat \<Rightarrow> Url list block" where
  "propertiesLine ln lineIndex us =
     (let trimmedLine = trim ln in
      if startsWith trimmedLine ''#'' \<or> startsWith trimmedLine ''!'' \<or> trimmedLine = ''''
      then (us, None)
      else
        (let us1 = pushHttpMatches (execAll URL_PATTERN ln 0) ln lineIndex us;
             us2 = pushMatches (execAll FTP_PATTERN ln 0) Ftp ln lineIndex us1;
             us3 = pushMatches (execAll MAILTO_PATTERN ln 0) Mailto ln lineIndex us2;
             us4 = pushMatches (execAll TEL_PATTERN ln 0) Tel ln lineIndex us3;
             us5 = pushMatches (execAll FILE_PATTERN ln 0) File ln lineIndex us4
         in (us5, None)))"

definition extractFromProperties :: "string \<Rightarrow> Url list" where
  "extractFromProperties content =
     fst (scanLines propertiesLine [] content)"

section \<open>URL validation (src/utils/urlValidation.ts)\<close>

text \<open>
  \<open>new URL(url)\<close> is the URL parser of the platform, not code of this repository. It is a
  parameter of everything that calls it: a function that answers the parsed record, or
  \<open>None\<close> where the constructor throws. Of the record the code reads five fields.
\<close>

record URL =
  url_protocol :: string
  hostname :: string
  pathname :: string
  search :: string
  hash :: string

type_synonym urlParser = "string \<Rightarrow> URL option"

definition parseUrl :: "urlParser \<Rightarrow> string \<Rightarrow> URL option" where
  "parseUrl newURL url = newURL url"

definition SUPPORTED_PROTOCOLS :: "string list" where
  "SUPPORTED_PROTOCOLS = [''http:'', ''https:'', ''ftp:'', ''file:'', ''mailto:'', ''tel:'']"

definition isSupportedProtocol :: "string \<Rightarrow> bool" where
  "isSupportedProtocol p \<longleftrightarrow> p \<in> set SUPPORTED_PROTOCOLS"

definition isValidMailto :: "string \<Rightarrow> bool" where
  "isValidMailto pn \<longleftrightarrow> CHR ''@'' \<in> set pn \<and> length pn > 1"

definition isValidTel :: "string \<Rightarrow> bool" where
  "isValidTel pn \<longleftrightarrow> length pn > 1"

definition isValidWebUrl :: "string \<Rightarrow> bool" where
  "isValidWebUrl hn \<longleftrightarrow> length hn > 0"

definition isValidFileUrl :: "string \<Rightarrow> bool" where
  "isValidFileUrl pn \<longleftrightarrow> length pn > 1"

definition validateByProtocol :: "URL \<Rightarrow> bool" where
  "validateByProtocol parsed =
     (if url_protocol parsed = ''mailto:'' then isValidMailto (pathname parsed)
      else if url_protocol parsed = ''tel:'' then isValidTel (pathname parsed)
      else if url_protocol parsed = ''http:'' \<or> url_protocol parsed = ''https:''
              \<or> url_protocol parsed = ''ftp:'' then isValidWebUrl (hostname parsed)
      else if url_protocol parsed = ''file:'' then isValidFileUrl (pathname parsed)
      else False)"

definition isValidUrl :: "urlParser \<Rightarrow> string \<Rightarrow> bool" where
  "isValidUrl newURL url =
     (case parseUrl newURL url of
        None \<Rightarrow> False
      | Some parsed \<Rightarrow>
          if \<not> isSupportedProtocol (url_protocol parsed) then False
          else validateByProtocol parsed)"

definition mapProtocolToType :: "string \<Rightarrow> UrlProtocol" where
  "mapProtocolToType p =
     (if p = ''http:'' then Http
      else if p = ''https:'' then Https
      else if p = ''ftp:'' then Ftp
      else if p = ''file:'' then File
      else if p = ''mailto:'' then Mailto
      else if p = ''tel:'' then Tel
      else UnknownProtocol)"

definition detectUrlProtocol :: "urlParser \<Rightarrow> string \<Rightarrow> UrlProtocol" where
  "detectUrlProtocol newURL url =
     (case parseUrl newURL url of
        None \<Rightarrow> UnknownProtocol
      | Some parsed \<Rightarrow> mapProtocolToType (url_protocol parsed))"

definition buildFullPath :: "URL \<Rightarrow> string" where
  "buildFullPath parsed = pathname parsed @ search parsed @ hash parsed"

record UrlComponents =
  c_protocol :: UrlProtocol
  c_domain :: string
  c_path :: string

definition extractUrlComponents :: "urlParser \<Rightarrow> string \<Rightarrow> UrlComponents option" where
  "extractUrlComponents newURL url =
     (case parseUrl newURL url of
        None \<Rightarrow> None
      | Some parsed \<Rightarrow>
          Some \<lparr>c_protocol = detectUrlProtocol newURL url, c_domain = hostname parsed,
                c_path = buildFullPath parsed\<rparr>)"

section \<open>Prefix classifier (src/extraction/collect.ts)\<close>

definition classifyUrlProtocol :: "string \<Rightarrow> UrlProtocol" where
  "classifyUrlProtocol url =
     (let trimmed = toLowerCase (trim url) in
      if startsWith trimmed ''https://'' then Https
      else if startsWith trimmed ''http://'' then Http
      else if startsWith trimmed ''ftp://'' then Ftp
      else if startsWith trimmed ''file://'' then File
      else if startsWith trimmed ''mailto:'' then Mailto
      else if startsWith trimmed ''tel:'' then Tel
      else UnknownProtocol)"

section \<open>Tokens of the HTML and Markdown scanners\<close>

text \<open>
  \<open>html.ts\<close> and \<open>markdown.ts\<close> each define \<open>createUrl\<close> and \<open>addUrlIfNew\<close> with the same
  body. The state of such a scan is the array \<open>urls\<close> and the set \<open>extractedPositions\<close>.
  A component is spread into the token only when it is a non-empty string.
\<close>

type_synonym scanState = "Url list \<times> string set"

definition createUrl :: "urlParser \<Rightarrow> string \<Rightarrow> string \<Rightarrow> nat \<Rightarrow> nat \<Rightarrow> Url" where
  "createUrl newURL url ln lineIndex columnIndex =
     (let components = extractUrlComponents newURL url in
      \<lparr>val = url, protocol = detectUrlProtocol newURL url, type = None,
       domain = (case components of None \<Rightarrow> None
                 | Some c \<Rightarrow> if c_domain c = [] then None else Some (c_domain c)),
       path = (case components of None \<Rightarrow> None
               | Some c \<Rightarrow> if c_path c = [] then None else Some (c_path c)),
       position = Some \<lparr>line = lineIndex + 1, column = columnIndex + 1\<rparr>,
       ctx = Some (trim ln)\<rparr>)"

definition addUrlIfNew ::
  "urlParser \<Rightarrow> string \<Rightarrow> string \<Rightarrow> nat \<Rightarrow> nat \<Rightarrow> scanState \<Rightarrow> scanState" where
  "addUrlIfNew newURL url ln lineIndex columnIndex st =
     (if url \<in> snd st then st
      else (fst st @ [createUrl newURL url ln lineIndex columnIndex], insert url (snd st)))"

section \<open>HTML scanner (src/extraction/formats/html.ts)\<close>

definition isInComment :: "string \<Rightarrow> nat \<Rightarrow> bool" where
  "isInComment ln index =
     (let beforeText = take index ln;
          commentStart = lastIndexOf beforeText ''<!--'';
          commentEnd = lastIndexOf beforeText ''-->''
      in commentStart > commentEnd)"

text \<open>
  The body of a \<open>while\<close> loop over the matches of a pattern, for one match: the
  \<open>continue\<close> statements leave the state as it is.
\<close>

definition attributeStep ::
  "urlParser \<Rightarrow> bool \<Rightarrow> string \<Rightarrow> nat \<Rightarrow> scanState \<Rightarrow> nat \<times> string \<Rightarrow> scanState" where
  "attributeStep newURL requiresValidation ln lineIndex st m =
     (let url = snd m; matchIndex = fst m in
      if url = [] then st
      else if isInComment ln matchIndex then st
      else if requiresValidation \<and> \<not> isValidUrl newURL url then st
      else addUrlIfNew newURL url ln lineIndex matchIndex st)"

definition extractByAttributePattern ::
  "urlParser \<Rightarrow> matcher \<Rightarrow> bool \<Rightarrow> string \<Rightarrow> nat \<Rightarrow> scanState \<Rightarrow> scanState" where
  "extractByAttributePattern newURL pattern requiresValidation ln lineIndex st =
     foldl (attributeStep newURL requiresValidation ln lineIndex) st (execAll pattern ln 0)"

definition ATTRIBUTE_PATTERNS :: "(matcher \<times> bool) list" where
  "ATTRIBUTE_PATTERNS = [(HREF_PATTERN, True), (SRC_PATTERN, True), (ACTION_PATTERN, True)]"

definition extractFromAttributes ::
  "urlParser \<Rightarrow> string \<Rightarrow> nat \<Rightarrow> scanState \<Rightarrow> scanState" where
  "extractFromAttributes newURL ln lineIndex st =
     foldl (\<lambda>st' config. extractByAttributePattern newURL (fst config) (snd config) ln lineIndex st')
       st ATTRIBUTE_PATTERNS"

definition plainStep_html ::
  "urlParser \<Rightarrow> string \<Rightarrow> nat \<Rightarrow> scanState \<Rightarrow> nat \<times> string \<Rightarrow> scanState" where
  "plainStep_html newURL ln lineIndex st m =
     (let url = snd m; matchIndex = fst m in
      if url = [] then st
      else if isInComment ln matchIndex then st
      else addUrlIfNew newURL url ln lineIndex matchIndex st)"

definition extractByPlainPattern ::
  "urlParser \<Rightarrow> matcher \<Rightarrow> string \<Rightarrow> nat \<Rightarrow> scanState \<Rightarrow> scanState" where
  "extractByPlainPattern newURL pattern ln lineIndex st =
     foldl (plainStep_html newURL ln lineIndex) st (execAll pattern ln 0)"

definition PLAIN_URL_PATTERNS :: "matcher list" where
  "PLAIN_URL_PATTERNS = [URL_PATTERN, FTP_PATTERN, MAILTO_PATTERN, TEL_PATTERN, FILE_PATTERN]"

definition extractPlainUrls_html ::
  "urlParser \<Rightarrow> string \<Rightarrow> nat \<Rightarrow> scanState \<Rightarrow> scanState" where
  "extractPlainUrls_html newURL ln lineIndex st =
     foldl (\<lambda>st' pattern. extractByPlainPattern newURL pattern ln lineIndex st') st
       PLAIN_URL_PATTERNS"

definition extractUrlsFromLine_html :: "urlParser \<Rightarrow> string \<Rightarrow> nat \<Rightarrow> scanState block" where
  "extractUrlsFromLine_html newURL ln lineIndex st =
     (extractPlainUrls_html newURL ln lineIndex (extractFromAttributes newURL ln lineIndex st),
      None)"

definition extractFromHtml :: "urlParser \<Rightarrow> string \<Rightarrow> Url list" where
  "extractFromHtml newURL content =
     fst (fst (scanLines (extractUrlsFromLine_html newURL) ([], {}) content))"

section \<open>Markdown scanner (src/extraction/formats/markdown.ts)\<close>

definition CODE_BLOCK_MARKER :: string where
  "CODE_BLOCK_MARKER = [CHR 0x60, CHR 0x60, CHR 0x60]"

definition updateCodeBlockState :: "string \<Rightarrow> bool \<Rightarrow> bool" where
  "updateCodeBlockState ln currentState =
     (if startsWith (trim ln) CODE_BLOCK_MARKER then \<not> currentState else currentState)"

text \<open>
  \<open>before.split('`').length - 1\<close> is the number of backticks in the text before the match.
\<close>

definition isInInlineCode :: "string \<Rightarrow> nat \<Rightarrow> bool" where
  "isInInlineCode ln index =
     (let beforeText = take index ln;
          backticks = length (filter (\<lambda>c. c = CHR 0x60) beforeText)
      in backticks mod 2 = 1)"

definition linkStep ::
  "urlParser \<Rightarrow> string \<Rightarrow> nat \<Rightarrow> scanState \<Rightarrow> nat \<times> string \<Rightarrow> scanState" where
  "linkStep newURL ln lineIndex st m =
     (let url = snd m in
      if url = [] \<or> \<not> isValidUrl newURL url then st
      else
        (let matchIndex = fst m in
         if isInInlineCode ln matchIndex then st
         else addUrlIfNew newURL url ln lineIndex matchIndex st))"

definition extractMarkdownLinks ::
  "urlParser \<Rightarrow> string \<Rightarrow> nat \<Rightarrow> scanState \<Rightarrow> scanState" where
  "extractMarkdownLinks newURL ln lineIndex st =
     foldl (linkStep newURL ln lineIndex) st (execAll MARKDOWN_LINK_PATTERN ln 0)"

definition extractAutolinks ::
  "urlParser \<Rightarrow> string \<Rightarrow> nat \<Rightarrow> scanState \<Rightarrow> scanState" where
  "extractAutolinks newURL ln lineIndex st =
     foldl (linkStep newURL ln lineIndex) st (execAll MARKDOWN_AUTOLINK_PATTERN ln 0)"

text \<open>
  \<open>extractByPattern\<close> validates the match only when the pattern is \<open>URL_PATTERN\<close>
  (\<open>pattern === URL_PATTERN\<close>); the flag \<open>isUrlPattern\<close> stands for that comparison.
\<close>

definition plainStep_md ::
  "urlParser \<Rightarrow> bool \<Rightarrow> string \<Rightarrow> nat \<Rightarrow> scanState \<Rightarrow> nat \<times> string \<Rightarrow> scanState" where
  "plainStep_md newURL isUrlPattern ln lineIndex st m =
     (let url = snd m in
      if url = [] then st
      else
        (let matchIndex = fst m in
         if isInInlineCode ln matchIndex then st
         else if isUrlPattern \<and> \<not> isValidUrl newURL url then st
         else addUrlIfNew newURL url ln lineIndex matchIndex st))"

definition extractByPattern ::
  "urlParser \<Rightarrow> matcher \<times> bool \<Rightarrow> string \<Rightarrow> nat \<Rightarrow> scanState \<Rightarrow> scanState" where
  "extractByPattern newURL pattern ln lineIndex st =
     foldl (plainStep_md newURL (snd pattern) ln lineIndex) st (execAll (fst pattern) ln 0)"

definition extractPlainUrls_md ::
  "urlParser \<Rightarrow> string \<Rightarrow> nat \<Rightarrow> scanState \<Rightarrow> scanState" where
  "extractPlainUrls_md newURL ln lineIndex st =
     foldl (\<lambda>st' pattern. extractByPattern newURL pattern ln lineIndex st') st
       [(URL_PATTERN, True), (FTP_PATTERN, False), (MAILTO_PATTERN, False),
        (TEL_PATTERN, False), (FILE_PATTERN, False)]"

definition extractUrlsFromLine_md :: "urlParser \<Rightarrow> string \<Rightarrow> nat \<Rightarrow> scanState block" where
  "extractUrlsFromLine_md newURL ln lineIndex st =
     (extractPlainUrls_md newURL ln lineIndex
        (extractAutolinks newURL ln lineIndex (extractMarkdownLinks newURL ln lineIndex st)),
      None)"

text \<open>
  The callback of \<open>forEach\<close> first updates \<open>inCodeBlock\<close>, outside the try block, and
  returns at once while the flag is set.
\<close>

definition markdownLine ::
  "urlParser \<Rightarrow> string \<Rightarrow> nat \<Rightarrow> bool \<times> scanState \<times> console \<Rightarrow> bool \<times> scanState \<times> console"
  where
  "markdownLine newURL ln lineIndex a =
     (let inCodeBlock = updateCodeBlockState ln (fst a) in
      if inCodeBlock then (inCodeBlock, snd a)
      else (inCodeBlock, tryCatchWarn lineIndex (extractUrlsFromLine_md newURL ln lineIndex) (snd a)))"

definition extractFromMarkdown :: "urlParser \<Rightarrow> string \<Rightarrow> Url list" where
  "extractFromMarkdown newURL content =
     fst (fst (snd (forEachLine (markdownLine newURL) (splitLines content) 0
                      (False, ([], {}), []))))"

section \<open>CSS and JSON scanners (src/extraction/formats/css.ts, json.ts)\<close>

definition cssLine :: "string \<Rightarrow> nat \<Rightarrow> Url list block" where
  "cssLine ln lineIndex us =
     (let us1 = pushMatches (execAll URL_PATTERN ln 0) Https ln lineIndex us;
          us2 = pushMatches (execAll FTP_PATTERN ln 0) Ftp ln lineIndex us1;
          us3 = pushMatches (execAll FILE_PATTERN ln 0) File ln lineIndex us2
      in (us3, None))"

definition extractFromCss :: "string \<Rightarrow> Url list" where
  "extractFromCss content =
     fst (scanLines cssLine [] content)"

definition PATTERNS_json :: "(matcher \<times> UrlProtocol) list" where
  "PATTERNS_json =
     [(URL_PATTERN, Https), (FTP_PATTERN, Ftp), (MAILTO_PATTERN, Mailto), (TEL_PATTERN, Tel),
      (FILE_PATTERN, File)]"

definition extractUrlsByPattern ::
  "string \<Rightarrow> nat \<Rightarrow> matcher \<times> UrlProtocol \<Rightarrow> Url list \<Rightarrow> Url list" where
  "extractUrlsByPattern ln lineIndex config us =
     pushMatches (execAll (fst config) ln 0) (snd config) ln lineIndex us"

definition extractUrlsFromLine_json :: "string \<Rightarrow> nat \<Rightarrow> Url list block" where
  "extractUrlsFromLine_json ln lineIndex us =
     (foldl (\<lambda>us' config. extractUrlsByPattern ln lineIndex config us') us PATTERNS_json, None)"

definition extractFromJson :: "string \<Rightarrow> Url list" where
  "extractFromJson content =
     fst (scanLines extractUrlsFromLine_json [] content)"

section \<open>JavaScript scanner (src/extraction/formats/javascript.ts)\<close>

text \<open>
  \<open>['"`]([^'"`]*?)['"`]\<close>: a quote, the shortest run of code units that are not quotes,
  a quote; the code reads group 1, which may be empty.
\<close>

definition isJsQuote :: "char \<Rightarrow> bool" where
  "isJsQuote c \<longleftrightarrow> c = CHR 0x27 \<or> c = CHR 0x22 \<or> c = CHR 0x60"

definition STRING_URL_PATTERN :: matcher where
  "STRING_URL_PATTERN s =
     (case s of
        [] \<Rightarrow> None
      | q # r \<Rightarrow>
          if \<not> isJsQuote q then None
          else
            (let v = takeWhile (\<lambda>c. \<not> isJsQuote c) r in
             case drop (length v) r of
               [] \<Rightarrow> None
             | q' # r2 \<Rightarrow> Some (length v + 2, v)))"

definition isValidUrl_js :: "string \<Rightarrow> bool" where
  "isValidUrl_js v \<longleftrightarrow>
     startsWith v ''https://'' \<or> startsWith v ''http://'' \<or> startsWith v ''ftp://''
     \<or> startsWith v ''mailto:'' \<or> startsWith v ''tel:'' \<or> startsWith v ''file://''"

definition detectUrlProtocol_js :: "string \<Rightarrow> UrlProtocol" where
  "detectUrlProtocol_js v =
     (if startsWith v ''http://'' then Http
      else if startsWith v ''https://'' then Https
      else if startsWith v ''ftp://'' then Ftp
      else if startsWith v ''mailto:'' then Mailto
      else if startsWith v ''tel:'' then Tel
      else if startsWith v ''file://'' then File
      else UnknownProtocol)"

definition jsToken :: "string \<Rightarrow> UrlProtocol \<Rightarrow> string \<Rightarrow> nat \<Rightarrow> nat \<Rightarrow> Url" where
  "jsToken v proto ln lineIndex i =
     \<lparr>val = v, protocol = proto, type = None, domain = None, path = None,
      position = Some \<lparr>line = lineIndex + 1, column = i + 1\<rparr>, ctx = Some (trim ln)\<rparr>"

definition stringStep_js :: "string \<Rightarrow> nat \<Rightarrow> scanState \<Rightarrow> nat \<times> string \<Rightarrow> scanState" where
  "stringStep_js ln lineIndex st m =
     (let stringValue = snd m in
      if stringValue \<noteq> [] \<and> isValidUrl_js stringValue then
        (if stringValue \<notin> snd st then
           (fst st @ [jsToken stringValue (detectUrlProtocol_js stringValue) ln lineIndex (fst m)],
            insert stringValue (snd st))
         else st)
      else st)"

definition plainStep_js ::
  "(string \<Rightarrow> UrlProtocol) \<Rightarrow> string \<Rightarrow> nat \<Rightarrow> scanState \<Rightarrow> nat \<times> string \<Rightarrow> scanState" where
  "plainStep_js proto ln lineIndex st m =
     (let urlValue = snd m in
      if urlValue \<notin> snd st then
        (fst st @ [jsToken urlValue (proto urlValue) ln lineIndex (fst m)],
         insert urlValue (snd st))
      else st)"

definition javaScriptLine :: "string \<Rightarrow> nat \<Rightarrow> scanState block" where
  "javaScriptLine ln lineIndex st =
     (let st0 = foldl (stringStep_js ln lineIndex) st (execAll STRING_URL_PATTERN ln 0);
          st1 = foldl (plainStep_js (\<lambda>v. if startsWith v ''https'' then Https else Http)
                         ln lineIndex) st0 (execAll URL_PATTERN ln 0);
          st2 = foldl (plainStep_js (\<lambda>v. Ftp) ln lineIndex) st1 (execAll FTP_PATTERN ln 0);
          st3 = foldl (plainStep_js (\<lambda>v. Mailto) ln lineIndex) st2
                  (execAll MAILTO_PATTERN ln 0);
          st4 = foldl (plainStep_js (\<lambda>v. Tel) ln lineIndex) st3 (execAll TEL_PATTERN ln 0);
          st5 = foldl (plainStep_js (\<lambda>v. File) ln lineIndex) st4 (execAll FILE_PATTERN ln 0)
      in (st5, None))"

definition extractFromJavaScript :: "string \<Rightarrow> Url list" where
  "extractFromJavaScript content =
     fst (fst (scanLines javaScriptLine ([], {}) content))"

section \<open>XML scanner (src/extraction/formats/xml.ts)\<close>

text \<open>
  \<open>(?:href|src|...)=["']([^"']+)["']\<close> with the flags \<open>gi\<close>: the alternatives are tried
  in the order written, and the first one after which the rest matches wins.
\<close>

definition matchNamedValue :: "string \<Rightarrow> matcher" where
  "matchNamedValue name s =
     (if \<not> startsWithCI s name then None
      else
        (case drop (length name) s of
           e # q # r4 \<Rightarrow>
             if e = CHR ''='' \<and> isQuote q then
               (let v = takeWhile (\<lambda>c. \<not> isQuote c) r4 in
                if v = [] then None
                else
                  (case drop (length v) r4 of
                     [] \<Rightarrow> None
                   | q' # r6 \<Rightarrow> Some (length s - length r6, v)))
             else None
         | _ \<Rightarrow> None))"

fun firstMatch :: "matcher list \<Rightarrow> matcher" where
  "firstMatch [] s = None"
| "firstMatch (m # ms) s = (case m s of None \<Rightarrow> firstMatch ms s | Some r \<Rightarrow> Some r)"

definition URL_ATTRIBUTES :: matcher where
  "URL_ATTRIBUTES =
     firstMatch (map matchNamedValue
       [''href'', ''src'', ''url'', ''xlink:href'', ''data'', ''xmlns'', ''schemaLocation'',
        ''repository'', ''scm'', ''issueManagement'', ''website'', ''link'', ''downloadUrl''])"

fun includes_str :: "string \<Rightarrow> string \<Rightarrow> bool" where
  "includes_str [] p = (p = [])"
| "includes_str (c # cs) p = (startsWith (c # cs) p \<or> includes_str cs p)"

definition isLikelyUrl :: "string \<Rightarrow> bool" where
  "isLikelyUrl v \<longleftrightarrow>
     includes_str v ''://'' \<or> startsWith v ''www.'' \<or> includes_str v ''.com'' \<or> includes_str v ''.org''
     \<or> includes_str v ''.net''"

definition determineProtocol :: "string \<Rightarrow> UrlProtocol" where
  "determineProtocol url =
     (if startsWith url ''https://'' then Https
      else if startsWith url ''http://'' then Http
      else if startsWith url ''ftp://'' then Ftp
      else if startsWith url ''mailto:'' then Mailto
      else if startsWith url ''tel:'' then Tel
      else if startsWith url ''file://'' then File
      else Https)"

definition pushAttributeMatches ::
  "(nat \<times> string) list \<Rightarrow> string \<Rightarrow> nat \<Rightarrow> Url list \<Rightarrow> Url list" where
  "pushAttributeMatches ms ln lineIndex us =
     us @ map (\<lambda>(i, v). jsToken v (determineProtocol v) ln lineIndex i)
            (filter (\<lambda>(i, v). v \<noteq> [] \<and> isLikelyUrl v) ms)"

definition xmlLine :: "string \<Rightarrow> nat \<Rightarrow> Url list block" where
  "xmlLine ln lineIndex us =
     (let us0 = pushAttributeMatches (execAll URL_ATTRIBUTES ln 0) ln lineIndex us;
          us1 = pushHttpMatches (execAll URL_PATTERN ln 0) ln lineIndex us0;
          us2 = pushMatches (execAll FTP_PATTERN ln 0) Ftp ln lineIndex us1;
          us3 = pushMatches (execAll MAILTO_PATTERN ln 0) Mailto ln lineIndex us2;
          us4 = pushMatches (execAll TEL_PATTERN ln 0) Tel ln lineIndex us3;
          us5 = pushMatches (execAll FILE_PATTERN ln 0) File ln lineIndex us4
      in (us5, None))"

definition extractFromXml :: "string \<Rightarrow> Url list" where
  "extractFromXml content =
     fst (scanLines xmlLine [] content)"

section \<open>Spread calls\<close>

text \<open>
  \<open>urls.push(...items)\<close> hands every element of \<open>items\<close> to \<open>push\<close> as an argument of one
  call. An engine takes only so many arguments in one call and throws a \<open>RangeError\<close>
  beyond that; the bound and the message of the error belong to the engine, which is a
  parameter. A call within the bound appends the elements.
\<close>

record engine =
  maxArguments :: nat
  rangeErrorMessage :: string

definition pushSpread :: "engine \<Rightarrow> Url list \<Rightarrow> Url list \<Rightarrow> thrown + Url list" where
  "pushSpread eng arr items =
     (if maxArguments eng < length items then Inl (ErrorObject (rangeErrorMessage eng))
      else Inr (arr @ items))"

text \<open>
  A loop \<open>for (const x of xs) urls.push(...f(x))\<close> on the array \<open>arr\<close>, given the outcomes
  of \<open>f\<close> on the elements in order: it stops at the first throw, of \<open>f\<close> or of the spread
  call.
\<close>

fun pushEach :: "engine \<Rightarrow> (thrown + Url list) list \<Rightarrow> Url list \<Rightarrow> thrown + Url list" where
  "pushEach eng [] arr = Inr arr"
| "pushEach eng (r # rs) arr =
     (case r of
        Inl e \<Rightarrow> Inl e
      | Inr items \<Rightarrow>
          (case pushSpread eng arr items of
             Inl e \<Rightarrow> Inl e
           | Inr arr' \<Rightarrow> pushEach eng rs arr'))"

section \<open>TOML and INI scanners (src/extraction/formats/toml.ts, ini.ts)\<close>

text \<open>
  \<open>toml.parse\<close> and \<open>ini.parse\<close> belong to libraries outside this repository. Each is a
  parameter: a function that answers the parsed value, or \<open>None\<close> where it throws. Of a
  parsed value the code tells strings, arrays and objects (with their entries in order)
  from everything else.
\<close>

datatype jsValue = JString string | JArray "jsValue list" | JObject "(string \<times> jsValue) list"
  | JOther

type_synonym structParser = "string \<Rightarrow> jsValue option"

text \<open>\<open>context || text\<close>: the text itself when the context is the empty string.\<close>

definition textToken :: "string \<Rightarrow> UrlProtocol \<Rightarrow> string \<Rightarrow> string \<Rightarrow> Url" where
  "textToken v proto txt context =
     \<lparr>val = v, protocol = proto, type = None, domain = None, path = None, position = None,
      ctx = Some (if context = [] then txt else context)\<rparr>"

definition extractUrlsFromText :: "string \<Rightarrow> string \<Rightarrow> Url list" where
  "extractUrlsFromText txt context =
     map (\<lambda>(i, v). textToken v (if startsWith v ''https'' then Https else Http) txt context)
       (execAll URL_PATTERN txt 0)
     @ map (\<lambda>(i, v). textToken v Ftp txt context) (execAll FTP_PATTERN txt 0)
     @ map (\<lambda>(i, v). textToken v Mailto txt context) (execAll MAILTO_PATTERN txt 0)
     @ map (\<lambda>(i, v). textToken v Tel txt context) (execAll TEL_PATTERN txt 0)
     @ map (\<lambda>(i, v). textToken v File txt context) (execAll FILE_PATTERN txt 0)"

text \<open>
  \<open>collectUrls\<close> spreads the tokens of a string, of every item of an array and of every
  entry of an object into its own array; a throw of a spread call leaves it.
\<close>

fun collectUrls_toml :: "engine \<Rightarrow> jsValue \<Rightarrow> string \<Rightarrow> thrown + Url list" where
  "collectUrls_toml eng (JString t) lineContext =
     pushSpread eng [] (extractUrlsFromText t lineContext)"
| "collectUrls_toml eng (JArray items) lineContext =
     pushEach eng (map (\<lambda>item. collectUrls_toml eng item lineContext) items) []"
| "collectUrls_toml eng (JObject entries) lineContext =
     pushEach eng
       (map (\<lambda>(key, v). collectUrls_toml eng v (lineContext @ key @ '': '')) entries) []"
| "collectUrls_toml eng JOther lineContext = Inr []"

text \<open>
  The \<open>try\<close> block parses the document and walks the parsed value; the \<open>catch\<close> block
  answers whatever was thrown in it with the scan of the whole text.
\<close>

definition extractFromToml :: "engine \<Rightarrow> structParser \<Rightarrow> string \<Rightarrow> Url list" where
  "extractFromToml eng tomlParse content =
     (case tomlParse content of
        Some parsed \<Rightarrow>
          (case collectUrls_toml eng parsed '''' of
             Inr found \<Rightarrow> found
           | Inl e \<Rightarrow> extractUrlsFromText content '''')
      | None \<Rightarrow> extractUrlsFromText content '''')"

fun collectUrls_ini :: "engine \<Rightarrow> jsValue \<Rightarrow> string \<Rightarrow> thrown + Url list" where
  "collectUrls_ini eng (JString t) sectionContext =
     pushSpread eng [] (extractUrlsFromText t sectionContext)"
| "collectUrls_ini eng (JArray items) sectionContext =
     pushEach eng (map (\<lambda>item. collectUrls_ini eng item sectionContext) items) []"
| "collectUrls_ini eng (JObject entries) sectionContext =
     pushEach eng
       (map (\<lambda>(key, v).
          collectUrls_ini eng v (if sectionContext = [] then key else sectionContext @ ''.'' @ key))
          entries) []"
| "collectUrls_ini eng JOther sectionContext = Inr []"

definition extractFromIni :: "engine \<Rightarrow> structParser \<Rightarrow> string \<Rightarrow> Url list" where
  "extractFromIni eng iniParse content =
     (case iniParse content of
        Some parsed \<Rightarrow>
          (case collectUrls_ini eng parsed '''' of
             Inr found \<Rightarrow> found
           | Inl e \<Rightarrow> extractUrlsFromText content '''')
      | None \<Rightarrow> extractUrlsFromText content '''')"

section \<open>Post-processing (src/extraction/collect.ts)\<close>

definition normalizedValue :: "Url \<Rightarrow> string" where
  "normalizedValue url = toLowerCase (trim (val url))"

fun dedupLoop :: "Url list \<Rightarrow> string set \<times> Url list \<Rightarrow> string set \<times> Url list" where
  "dedupLoop [] a = a"
| "dedupLoop (url # rest) a =
     (if normalizedValue url \<notin> fst a
      then dedupLoop rest (insert (normalizedValue url) (fst a), snd a @ [url])
      else dedupLoop rest a)"

definition deduplicateUrls :: "Url list \<Rightarrow> Url list" where
  "deduplicateUrls us = snd (dedupLoop us ({}, []))"

text \<open>
  \<open>String.prototype.localeCompare\<close> is the collation of the platform: a parameter that
  answers a negative number, zero or a positive number. \<open>Array.prototype.sort\<close> is stable,
  and for a consistent comparator every stable sort gives the same array; it is modelled
  by insertion from the right, which puts an element before the elements it does not
  follow.
\<close>

type_synonym collation = "string \<Rightarrow> string \<Rightarrow> int"

fun insertSorted :: "('a \<Rightarrow> 'a \<Rightarrow> int) \<Rightarrow> 'a \<Rightarrow> 'a list \<Rightarrow> 'a list" where
  "insertSorted c x [] = [x]"
| "insertSorted c x (y # ys) = (if c x y \<le> 0 then x # y # ys else y # insertSorted c x ys)"

definition arraySort :: "('a \<Rightarrow> 'a \<Rightarrow> int) \<Rightarrow> 'a list \<Rightarrow> 'a list" where
  "arraySort c xs = foldr (insertSorted c) xs []"

datatype SortBy = ByValue | ByType | ByDomain | ByLength | ByOther

text \<open>\<open>a.type || 'unknown'\<close>: a missing or empty type reads \<open>unknown\<close>.\<close>

definition typeOrUnknown :: "Url \<Rightarrow> string" where
  "typeOrUnknown url = (case type url of None \<Rightarrow> ''unknown'' | Some t \<Rightarrow> if t = [] then ''unknown'' else t)"

definition getDomain :: "urlParser \<Rightarrow> Url \<Rightarrow> string" where
  "getDomain newURL url =
     (if type url = Some ''http'' \<or> type url = Some ''https'' then
        (case newURL (val url) of Some parsed \<Rightarrow> hostname parsed | None \<Rightarrow> val url)
      else val url)"

definition compareValue :: "collation \<Rightarrow> Url \<Rightarrow> Url \<Rightarrow> int" where
  "compareValue localeCompare a b = localeCompare (val a) (val b)"

definition compareType :: "collation \<Rightarrow> Url \<Rightarrow> Url \<Rightarrow> int" where
  "compareType localeCompare a b =
     (let typeCompare = localeCompare (typeOrUnknown a) (typeOrUnknown b) in
      if typeCompare \<noteq> 0 then typeCompare else localeCompare (val a) (val b))"

definition compareDomain :: "collation \<Rightarrow> urlParser \<Rightarrow> Url \<Rightarrow> Url \<Rightarrow> int" where
  "compareDomain localeCompare newURL a b =
     (let domainCompare = localeCompare (getDomain newURL a) (getDomain newURL b) in
      if domainCompare \<noteq> 0 then domainCompare else localeCompare (val a) (val b))"

definition compareLength :: "collation \<Rightarrow> Url \<Rightarrow> Url \<Rightarrow> int" where
  "compareLength localeCompare a b =
     (let lengthCompare = int (length (val a)) - int (length (val b)) in
      if lengthCompare \<noteq> 0 then lengthCompare else localeCompare (val a) (val b))"

fun sortUrls :: "collation \<Rightarrow> urlParser \<Rightarrow> Url list \<Rightarrow> SortBy \<Rightarrow> Url list" where
  "sortUrls localeCompare newURL us ByValue = arraySort (compareValue localeCompare) us"
| "sortUrls localeCompare newURL us ByType = arraySort (compareType localeCompare) us"
| "sortUrls localeCompare newURL us ByDomain = arraySort (compareDomain localeCompare newURL) us"
| "sortUrls localeCompare newURL us ByLength = arraySort (compareLength localeCompare) us"
| "sortUrls localeCompare newURL us ByOther = us"

section \<open>Dispatcher (src/extraction/extract.ts)\<close>

definition MAX_CONTENT_SIZE :: nat where
  "MAX_CONTENT_SIZE = 10000000"

definition MAX_URL_COUNT :: nat where
  "MAX_URL_COUNT = 50000"

text \<open>
  A scanner is a function from the document to its tokens that may throw. The ten
  scanners the dispatcher imports are handed to it as a record.
\<close>

type_synonym scanner = "string \<Rightarrow> thrown + Url list"

record extractors =
  fromMarkdown :: scanner
  fromHtml :: scanner
  fromCss :: scanner
  fromJavaScript :: scanner
  fromJson :: scanner
  fromYaml :: scanner
  fromProperties :: scanner
  fromToml :: scanner
  fromIni :: scanner
  fromXml :: scanner

definition determineFileType :: "string \<Rightarrow> FileType" where
  "determineFileType languageId =
     (if languageId = ''markdown'' then FT_markdown
      else if languageId = ''html'' then FT_html
      else if languageId = ''css'' then FT_css
      else if languageId = ''javascript'' then FT_javascript
      else if languageId = ''typescript'' then FT_typescript
      else if languageId = ''json'' then FT_json
      else if languageId = ''yaml'' \<or> languageId = ''yml'' then FT_yaml
      else if languageId = ''properties'' then FT_properties
      else if languageId = ''toml'' then FT_toml
      else if languageId = ''ini'' then FT_ini
      else if languageId = ''xml'' then FT_xml
      else FT_unknown)"

fun selectExtractor :: "extractors \<Rightarrow> FileType \<Rightarrow> scanner" where
  "selectExtractor ex FT_markdown = fromMarkdown ex"
| "selectExtractor ex FT_html = fromHtml ex"
| "selectExtractor ex FT_css = fromCss ex"
| "selectExtractor ex FT_javascript = fromJavaScript ex"
| "selectExtractor ex FT_typescript = fromJavaScript ex"
| "selectExtractor ex FT_json = fromJson ex"
| "selectExtractor ex FT_yaml = fromYaml ex"
| "selectExtractor ex FT_yml = fromYaml ex"
| "selectExtractor ex FT_properties = fromProperties ex"
| "selectExtractor ex FT_toml = fromToml ex"
| "selectExtractor ex FT_ini = fromIni ex"
| "selectExtractor ex FT_xml = fromXml ex"
| "selectExtractor ex FT_unknown = fromMarkdown ex"

definition createEmptyResult :: "FileType \<Rightarrow> ExtractionResult" where
  "createEmptyResult ft = \<lparr>success = False, urls = [], errors = [], fileType = ft\<rparr>"

text \<open>\<open>now\<close> is the reading of the clock (\<open>Date.now()\<close>) at the call.\<close>

definition createErrorResult :: "nat \<Rightarrow> FileType \<Rightarrow> string \<Rightarrow> ExtractionResult" where
  "createErrorResult now ft msg =
     \<lparr>success = False, urls = [],
      errors = [\<lparr>category = Parsing, severity = Warning, message = msg, recoverable = True,
                 recoveryAction = Truncate, timestamp = now\<rparr>],
      fileType = ft\<rparr>"

definition truncatedMessage :: "nat \<Rightarrow> string" where
  "truncatedMessage originalCount =
     ''URL count ('' @ string_of_nat originalCount @ '') exceeds limit (''
       @ string_of_nat MAX_URL_COUNT @ ''), truncated results''"

definition createTruncatedResult ::
  "nat \<Rightarrow> Url list \<Rightarrow> FileType \<Rightarrow> nat \<Rightarrow> ExtractionResult" where
  "createTruncatedResult now us ft originalCount =
     \<lparr>success = True, urls = take MAX_URL_COUNT us,
      errors = [\<lparr>category = Parsing, severity = Warning,
                 message = truncatedMessage originalCount, recoverable = True,
                 recoveryAction = Truncate, timestamp = now\<rparr>],
      fileType = ft\<rparr>"

definition createSuccessResult ::
  "Url list \<Rightarrow> ParseError list \<Rightarrow> FileType \<Rightarrow> ExtractionResult" where
  "createSuccessResult us errs ft =
     \<lparr>success = (length errs = 0), urls = us, errors = errs, fileType = ft\<rparr>"

definition createParseError :: "nat \<Rightarrow> thrown \<Rightarrow> ParseError" where
  "createParseError now e =
     \<lparr>category = Parsing, severity = Warning,
      message = (case e of ErrorObject m \<Rightarrow> m | OtherValue \<Rightarrow> ''Unknown parsing error''),
      recoverable = True, recoveryAction = Skip, timestamp = now\<rparr>"

text \<open>
  The \<open>try\<close> block runs the selected scanner and spreads its tokens into the empty array
  \<open>urls\<close> with \<open>urls.push(...extractedUrls)\<close>; the \<open>catch\<close> block records what the scanner
  or the spread call has thrown, and then \<open>urls\<close> is still empty.
\<close>

definition extractUrlsByFileType ::
  "engine \<Rightarrow> extractors \<Rightarrow> nat \<Rightarrow> string \<Rightarrow> FileType \<Rightarrow> thrown + Url list \<times> ParseError list"
  where
  "extractUrlsByFileType eng ex now content ft =
     (case (case selectExtractor ex ft content of
              Inl e \<Rightarrow> Inl e
            | Inr extractedUrls \<Rightarrow> pushSpread eng [] extractedUrls) of
        Inr pushed \<Rightarrow> Inr (pushed, [])
      | Inl e \<Rightarrow> Inr ([], [] @ [createParseError now e]))"

definition contentTooLargeMessage :: "nat \<Rightarrow> string" where
  "contentTooLargeMessage n =
     ''Content too large ('' @ string_of_nat n @ '' characters), maximum size is 10MB''"

text \<open>
  The optional cancellation token is \<open>None\<close> when the caller passes none and \<open>Some b\<close>
  when its \<open>isCancellationRequested\<close> reads \<open>b\<close>. The function is \<open>async\<close> without an
  \<open>await\<close>: it runs to its end in one turn, so both reads of the token see the same value.
  The promise it returns is \<open>Inr\<close> when fulfilled and \<open>Inl\<close> when rejected; a throw that
  left \<open>extractUrlsByFileType\<close> would reject it.
\<close>

definition isCancellationRequested :: "bool option \<Rightarrow> bool" where
  "isCancellationRequested tok = (case tok of None \<Rightarrow> False | Some b \<Rightarrow> b)"

definition extractUrls ::
  "engine \<Rightarrow> extractors \<Rightarrow> nat \<Rightarrow> string \<Rightarrow> string \<Rightarrow> bool option \<Rightarrow>
     thrown + ExtractionResult" where
  "extractUrls eng ex now content languageId cancellationToken =
     (if isCancellationRequested cancellationToken then Inr (createEmptyResult FT_unknown)
      else if length content > MAX_CONTENT_SIZE then
        Inr (createErrorResult now FT_unknown (contentTooLargeMessage (length content)))
      else
        (let ft = determineFileType languageId in
         if isCancellationRequested cancellationToken then Inr (createEmptyResult ft)
         else
           (case extractUrlsByFileType eng ex now content ft of
              Inl e \<Rightarrow> Inl e
            | Inr extractionResult \<Rightarrow>
                if length (fst extractionResult) > MAX_URL_COUNT then
                  Inr (createTruncatedResult now (fst extractionResult) ft
                         (length (fst extractionResult)))
                else Inr (createSuccessResult (fst extractionResult) (snd extractionResult) ft))))"

text \<open>
  The scanners as the dispatcher imports them, given the engine and the three parsers of
  the platform. None of them has a \<open>throw\<close> of its own.
\<close>

definition importedExtractors ::
  "engine \<Rightarrow> urlParser \<Rightarrow> structParser \<Rightarrow> structParser \<Rightarrow> extractors" where
  "importedExtractors eng newURL tomlParse iniParse =
     \<lparr>fromMarkdown = (\<lambda>c. Inr (extractFromMarkdown newURL c)),
      fromHtml = (\<lambda>c. Inr (extractFromHtml newURL c)),
      fromCss = (\<lambda>c. Inr (extractFromCss c)),
      fromJavaScript = (\<lambda>c. Inr (extractFromJavaScript c)),
      fromJson = (\<lambda>c. Inr (extractFromJson c)),
      fromYaml = (\<lambda>c. Inr (extractFromYaml c)),
      fromProperties = (\<lambda>c. Inr (extractFromProperties c)),
      fromToml = (\<lambda>c. Inr (extractFromToml eng tomlParse c)),
      fromIni = (\<lambda>c. Inr (extractFromIni eng iniParse c)),
      fromXml = (\<lambda>c. Inr (extractFromXml c))\<rparr>"

text \<open>
  Answers of the URL parser of the platform on the strings that the examples below hand
  to it; a string outside the table is one the examples never parse successfully.
\<close>

definition sampleURL :: urlParser where
  "sampleURL = map_of
     [(''https://a.com'',
        \<lparr>url_protocol = ''https:'', hostname = ''a.com'', pathname = ''/'', search = '''',
         hash = ''''\<rparr>),
      ('' http://a.com'',
        \<lparr>url_protocol = ''http:'', hostname = ''a.com'', pathname = ''/'', search = '''',
         hash = ''''\<rparr>),
      (''https://example.com'',
        \<lparr>url_protocol = ''https:'', hostname = ''example.com'', pathname = ''/'', search = '''',
         hash = ''''\<rparr>),
      (''https://hidden.com'',
        \<lparr>url_protocol = ''https:'', hostname = ''hidden.com'', pathname = ''/'', search = '''',
         hash = ''''\<rparr>),
      (''https://seen.com'',
        \<lparr>url_protocol = ''https:'', hostname = ''seen.com'', pathname = ''/'', search = '''',
         hash = ''''\<rparr>),
      (''javascript:x'',
        \<lparr>url_protocol = ''javascript:'', hostname = '''', pathname = ''x'', search = '''',
         hash = ''''\<rparr>)]"

text \<open>A structural parser that rejects every document, so that the text fallback runs.\<close>

definition rejectAll :: structParser where
  "rejectAll = (\<lambda>content. None)"

text \<open>
  An engine to run the examples on: it spreads up to 65,536 arguments into one call, which
  covers the 50,001 tokens of the truncation test of the repository.
\<close>

definition sampleEngine :: engine where
  "sampleEngine =
     \<lparr>maxArguments = 65536, rangeErrorMessage = ''Maximum call stack size exceeded''\<rparr>"

section \<open>Notions used in the properties\<close>








text \<open>The literal prefixes of the recognised schemes, in the order of the classifier.\<close>

definition recognizedPrefixes :: "string list" where
  "recognizedPrefixes = [''https://'', ''http://'', ''ftp://'', ''file://'', ''mailto:'', ''tel:'']"

text \<open>
  The survivors of a deduplication that starts with the set \<open>seen\<close>: the elements whose
  normalised value is not in the set and has not occurred earlier in the list.
\<close>

fun firstOccurrences :: "string set \<Rightarrow> Url list \<Rightarrow> Url list" where
  "firstOccurrences seen [] = []"
| "firstOccurrences seen (u # us) =
     (if normalizedValue u \<in> seen then firstOccurrences seen us
      else u # firstOccurrences (insert (normalizedValue u) seen) us)"

text \<open>
  A comparator is consistent when it orders any two elements in opposite ways from the
  two sides and its relation \<open>\<le> 0\<close> is transitive: a total preorder. The language asks this
  of the collation and of every function handed to \<open>sort\<close>.
\<close>

definition consistent :: "('a \<Rightarrow> 'a \<Rightarrow> int) \<Rightarrow> bool" where
  "consistent c \<longleftrightarrow>
     (\<forall>a b. (c a b < 0) = (0 < c b a)) \<and> (\<forall>a b d. c a b \<le> 0 \<and> c b d \<le> 0 \<longrightarrow> c a d \<le> 0)"

text \<open>The comparator that each mode of \<open>sortUrls\<close> hands to \<open>sort\<close>; the default mode sorts nothing.\<close>

fun comparatorOf :: "collation \<Rightarrow> urlParser \<Rightarrow> SortBy \<Rightarrow> (Url \<Rightarrow> Url \<Rightarrow> int) option" where
  "comparatorOf lc newURL ByValue = Some (compareValue lc)"
| "comparatorOf lc newURL ByType = Some (compareType lc)"
| "comparatorOf lc newURL ByDomain = Some (compareDomain lc newURL)"
| "comparatorOf lc newURL ByLength = Some (compareLength lc)"
| "comparatorOf lc newURL ByOther = None"

text \<open>
  A consistent comparator to try the sort on: the order of the code units. A token of
  the examples has a value, a type, the position 1:1 and a context, as in the tests of
  the repository.
\<close>

definition codeUnit :: "char \<Rightarrow> nat" where
  "codeUnit c = of_char c"

fun codeUnitCompare :: "string \<Rightarrow> string \<Rightarrow> int" where
  "codeUnitCompare [] [] = 0"
| "codeUnitCompare [] (y # ys) = - 1"
| "codeUnitCompare (x # xs) [] = 1"
| "codeUnitCompare (x # xs) (y # ys) =
     (if codeUnit x < codeUnit y then - 1
      else if codeUnit y < codeUnit x then 1
      else codeUnitCompare xs ys)"

definition sampleToken :: "string \<Rightarrow> string \<Rightarrow> string \<Rightarrow> Url" where
  "sampleToken v t c =
     \<lparr>val = v, protocol = classifyUrlProtocol v, type = Some t, domain = None, path = None,
      position = Some \<lparr>line = 1, column = 1\<rparr>, ctx = Some c\<rparr>"

section \<open>Properties of the dispatcher\<close>

lemma truncatedMessage_neq_contentTooLargeMessage:
  "truncatedMessage k \<noteq> contentTooLargeMessage n"
  by (simp add: truncatedMessage_def contentTooLargeMessage_def)

text \<open>
  C1. For every document whose length is at most the ceiling of 10,000,000 characters and
  every format tag, the promise of \<open>extractUrls\<close> is fulfilled with an extraction result,
  never rejected; when the selected scanner throws, the result carries no token and
  exactly the parse error made from the thrown value, and is unsuccessful.
\<close>

theorem extractUrls_never_throws:
  assumes "length content \<le> MAX_CONTENT_SIZE"
  shows "\<exists>r. extractUrls eng ex now content languageId tok = Inr r \<and>
           (\<forall>e. \<not> isCancellationRequested tok \<and>
                 selectExtractor ex (determineFileType languageId) content = Inl e \<longrightarrow>
                 r = \<lparr>success = False, urls = [], errors = [createParseError now e],
                      fileType = determineFileType languageId\<rparr>)"
  using assms
  by (auto simp: extractUrls_def Let_def extractUrlsByFileType_def pushSpread_def
      createSuccessResult_def MAX_URL_COUNT_def split: sum.splits if_splits)

theorem extractUrls_never_throws_witness:
  "length ''[a](https://a.com)'' \<le> MAX_CONTENT_SIZE \<and>
   extractUrls sampleEngine
     ((importedExtractors sampleEngine sampleURL rejectAll rejectAll)
        \<lparr>fromMarkdown := (\<lambda>c. Inl (ErrorObject ''Maximum call stack size exceeded''))\<rparr>)
     7 ''[a](https://a.com)'' ''markdown'' None =
   Inr \<lparr>success = False, urls = [],
        errors = [\<lparr>category = Parsing, severity = Warning,
                   message = ''Maximum call stack size exceeded'', recoverable = True,
                   recoveryAction = Skip, timestamp = 7\<rparr>],
        fileType = FT_markdown\<rparr>"
proof -
  let ?ex = "(importedExtractors sampleEngine sampleURL rejectAll rejectAll)
        \<lparr>fromMarkdown := (\<lambda>c. Inl (ErrorObject ''Maximum call stack size exceeded''))\<rparr>"
  have len: "length ''[a](https://a.com)'' \<le> MAX_CONTENT_SIZE"
    by (simp add: MAX_CONTENT_SIZE_def)
  have thrown: "\<not> isCancellationRequested None \<and>
      selectExtractor ?ex (determineFileType ''markdown'') ''[a](https://a.com)''
        = Inl (ErrorObject ''Maximum call stack size exceeded'')"
    by (simp add: isCancellationRequested_def determineFileType_def)
  from extractUrls_never_throws [OF len, of sampleEngine ?ex 7 "''markdown''" None] thrown
  have "extractUrls sampleEngine ?ex 7 ''[a](https://a.com)'' ''markdown'' None =
      Inr \<lparr>success = False, urls = [],
           errors = [createParseError 7 (ErrorObject ''Maximum call stack size exceeded'')],
           fileType = determineFileType ''markdown''\<rparr>"
    by auto
  then show ?thesis
    using len by (simp add: createParseError_def determineFileType_def)
qed

section \<open>A document of many tokens\<close>

text \<open>
  The YAML scanner on \<open>n\<close> copies of \<open>http://a\<close>, each followed by a space, on one line:
  one token per copy.
\<close>

lemma splitLines_single: "CHR 0x0A \<notin> set s \<Longrightarrow> splitLines s = [s]"
  by (induction s) auto

lemma execAll_url_unit:
  "execAll URL_PATTERN (''http://a '' @ rest) i =
     (i, ''http://a'') # execAll URL_PATTERN rest (i + 9)"
proof -
  have e: "i + 9 = Suc (Suc (Suc (Suc (Suc (Suc (Suc (Suc (Suc i))))))))" by simp
  show ?thesis
    by (simp add: e URL_PATTERN_def matchPlain_def startsWith_def isTerminator_def
        isWhiteSpace_def)
qed

lemma execAll_url_copies:
  "execAll URL_PATTERN (concat (replicate n ''http://a '')) i =
     map (\<lambda>k. (i + 9 * k, ''http://a'')) [0..<n]"
proof (induction n arbitrary: i)
  case 0
  show ?case by simp
next
  case (Suc n)
  have "execAll URL_PATTERN (concat (replicate (Suc n) ''http://a '')) i
        = (i, ''http://a'') # execAll URL_PATTERN (concat (replicate n ''http://a '')) (i + 9)"
    using execAll_url_unit [of "concat (replicate n ''http://a '')" i] by simp
  also have "\<dots> = (i, ''http://a'') # map (\<lambda>k. (i + 9 + 9 * k, ''http://a'')) [0..<n]"
    by (simp add: Suc.IH)
  also have "\<dots> = map (\<lambda>k. (i + 9 * k, ''http://a'')) [0..<Suc n]"
    by (simp add: upt_rec [of 0 "Suc n"] map_Suc_upt [symmetric] del: upt_Suc)
  finally show ?case .
qed

lemma execAll_other_unit:
  "execAll FTP_PATTERN (''http://a '' @ rest) i = execAll FTP_PATTERN rest (i + 9)"
  "execAll MAILTO_PATTERN (''http://a '' @ rest) i = execAll MAILTO_PATTERN rest (i + 9)"
  "execAll TEL_PATTERN (''http://a '' @ rest) i = execAll TEL_PATTERN rest (i + 9)"
  "execAll FILE_PATTERN (''http://a '' @ rest) i = execAll FILE_PATTERN rest (i + 9)"
proof -
  have e: "i + 9 = Suc (Suc (Suc (Suc (Suc (Suc (Suc (Suc (Suc i))))))))" by simp
  show "execAll FTP_PATTERN (''http://a '' @ rest) i = execAll FTP_PATTERN rest (i + 9)"
    by (simp add: e FTP_PATTERN_def matchPlain_def startsWith_def)
  show "execAll MAILTO_PATTERN (''http://a '' @ rest) i = execAll MAILTO_PATTERN rest (i + 9)"
    by (simp add: e MAILTO_PATTERN_def matchPlain_def startsWith_def)
  show "execAll TEL_PATTERN (''http://a '' @ rest) i = execAll TEL_PATTERN rest (i + 9)"
    by (simp add: e TEL_PATTERN_def matchPlain_def startsWith_def)
  show "execAll FILE_PATTERN (''http://a '' @ rest) i = execAll FILE_PATTERN rest (i + 9)"
    by (simp add: e FILE_PATTERN_def matchPlain_def startsWith_def)
qed

lemma execAll_other_copies:
  "execAll FTP_PATTERN (concat (replicate n ''http://a '')) i = []"
  "execAll MAILTO_PATTERN (concat (replicate n ''http://a '')) i = []"
  "execAll TEL_PATTERN (concat (replicate n ''http://a '')) i = []"
  "execAll FILE_PATTERN (concat (replicate n ''http://a '')) i = []"
  by (induction n arbitrary: i; simp add: execAll_other_unit del: append.simps)+

lemma extractFromYaml_copies:
  "length (extractFromYaml (concat (replicate n ''http://a ''))) = n"
proof -
  have "CHR 0x0A \<notin> set (concat (replicate n ''http://a ''))" by auto
  then show ?thesis
    by (simp add: extractFromYaml_def scanLines_def splitLines_single tryCatchWarn_def
        yamlLine_def Let_def
        pushMatches_def execAll_url_copies execAll_other_copies)
qed

lemma length_copies: "length (concat (replicate n ''http://a '')) = 9 * n"
  by (induction n) auto

text \<open>
  What the dispatcher makes of a scan that returns the tokens \<open>us\<close>, when no cancellation
  was requested and the document is within the size ceiling. Tokens that the engine can
  spread into one call are truncated to the first 50,000 when they are more, with
  \<open>success = true\<close> and one parse error with the action \<open>truncate\<close> that states the
  original count, and returned as they are otherwise; tokens beyond the bound of the
  engine make the spread call throw, and the result is the one of a scanner that threw.
\<close>

lemma extractUrls_within_spread:
  assumes "\<not> isCancellationRequested tok" and "length content \<le> MAX_CONTENT_SIZE"
    and "selectExtractor ex (determineFileType languageId) content = Inr us"
    and "length us \<le> maxArguments eng"
  shows "extractUrls eng ex now content languageId tok =
           (if MAX_URL_COUNT < length us then
              Inr \<lparr>success = True, urls = take MAX_URL_COUNT us,
                   errors = [\<lparr>category = Parsing, severity = Warning,
                              message = truncatedMessage (length us), recoverable = True,
                              recoveryAction = Truncate, timestamp = now\<rparr>],
                   fileType = determineFileType languageId\<rparr>
            else
              Inr \<lparr>success = True, urls = us, errors = [],
                   fileType = determineFileType languageId\<rparr>)"
  using assms
  by (simp add: extractUrls_def Let_def extractUrlsByFileType_def pushSpread_def
      createSuccessResult_def createTruncatedResult_def)

lemma extractUrls_beyond_spread:
  assumes "\<not> isCancellationRequested tok" and "length content \<le> MAX_CONTENT_SIZE"
    and "selectExtractor ex (determineFileType languageId) content = Inr us"
    and "maxArguments eng < length us"
  shows "extractUrls eng ex now content languageId tok =
           Inr \<lparr>success = False, urls = [],
                errors = [\<lparr>category = Parsing, severity = Warning,
                           message = rangeErrorMessage eng, recoverable = True,
                           recoveryAction = Skip, timestamp = now\<rparr>],
                fileType = determineFileType languageId\<rparr>"
  using assms
  by (simp add: extractUrls_def Let_def extractUrlsByFileType_def pushSpread_def
      createSuccessResult_def createParseError_def MAX_URL_COUNT_def)

lemma yaml_copies_scanned:
  assumes "9 * n \<le> 10000000"
  shows "\<not> isCancellationRequested None"
    and "length (concat (replicate n ''http://a '')) \<le> MAX_CONTENT_SIZE"
    and "selectExtractor (importedExtractors eng newURL tomlParse iniParse)
       (determineFileType ''yaml'') (concat (replicate n ''http://a ''))
       = Inr (extractFromYaml (concat (replicate n ''http://a '')))"
    and "determineFileType ''yaml'' = FT_yaml"
  using assms
  by (simp_all add: isCancellationRequested_def length_copies MAX_CONTENT_SIZE_def
      determineFileType_def importedExtractors_def)

text \<open>
  C2. On a scan that the engine spreads into one call the dispatcher does what the claim
  says: on every engine that spreads 50,001 arguments, a YAML document of 50,001 tokens
  gets its first 50,000 tokens, \<open>success = true\<close> and one parse error with the action
  \<open>truncate\<close> that states the count 50,001. On a larger scan it does not. A YAML document
  of 200,000 tokens has 1,800,000 characters, well within the size ceiling; the scan
  yields its 200,000 tokens, and on every engine that does not spread 200,000 arguments
  the spread call that copies them throws, and the result has no token at all,
  \<open>success = false\<close> and one parse error with the action \<open>skip\<close>.
\<close>

theorem truncation_lost_beyond_spread:
  "length (concat (replicate 200000 ''http://a '')) = 1800000 \<and>
   length (extractFromYaml (concat (replicate 200000 ''http://a ''))) = 200000 \<and>
   (maxArguments eng < 200000 \<longrightarrow>
      extractUrls eng (importedExtractors eng newURL tomlParse iniParse) now
        (concat (replicate 200000 ''http://a '')) ''yaml'' None =
      Inr \<lparr>success = False, urls = [],
           errors = [\<lparr>category = Parsing, severity = Warning,
                      message = rangeErrorMessage eng, recoverable = True,
                      recoveryAction = Skip, timestamp = now\<rparr>],
           fileType = FT_yaml\<rparr>) \<and>
   (50001 \<le> maxArguments eng \<longrightarrow>
      extractUrls eng (importedExtractors eng newURL tomlParse iniParse) now
        (concat (replicate 50001 ''http://a '')) ''yaml'' None =
      Inr \<lparr>success = True,
           urls = take 50000 (extractFromYaml (concat (replicate 50001 ''http://a ''))),
           errors = [\<lparr>category = Parsing, severity = Warning,
                      message = truncatedMessage 50001, recoverable = True,
                      recoveryAction = Truncate, timestamp = now\<rparr>],
           fileType = FT_yaml\<rparr>)"
proof -
  let ?ex = "importedExtractors eng newURL tomlParse iniParse"
  have n1: "9 * (200000::nat) \<le> 10000000" and n2: "9 * (50001::nat) \<le> 10000000"
    by simp_all
  note pre1 = yaml_copies_scanned [OF n1]
  note pre2 = yaml_copies_scanned [OF n2]
  note sel1 = pre1(3) [where eng = eng and newURL = newURL and tomlParse = tomlParse
    and iniParse = iniParse]
  note sel2 = pre2(3) [where eng = eng and newURL = newURL and tomlParse = tomlParse
    and iniParse = iniParse]
  have one: "extractUrls eng ?ex now (concat (replicate 200000 ''http://a '')) ''yaml'' None =
    Inr \<lparr>success = False, urls = [],
        errors = [\<lparr>category = Parsing, severity = Warning,
                   message = rangeErrorMessage eng, recoverable = True,
                   recoveryAction = Skip, timestamp = now\<rparr>],
        fileType = FT_yaml\<rparr>"
    if "maxArguments eng < 200000"
  proof -
    from that have big: "maxArguments eng
        < length (extractFromYaml (concat (replicate 200000 ''http://a '')))"
      by (simp add: extractFromYaml_copies)
    show ?thesis
      using extractUrls_beyond_spread [OF pre1(1) pre1(2) sel1 big, where now = now]
      by (simp add: pre1(4))
  qed
  have two: "extractUrls eng ?ex now (concat (replicate 50001 ''http://a '')) ''yaml'' None =
    Inr \<lparr>success = True,
        urls = take 50000 (extractFromYaml (concat (replicate 50001 ''http://a ''))),
        errors = [\<lparr>category = Parsing, severity = Warning,
                   message = truncatedMessage 50001, recoverable = True,
                   recoveryAction = Truncate, timestamp = now\<rparr>],
        fileType = FT_yaml\<rparr>"
    if "50001 \<le> maxArguments eng"
  proof -
    from that have small: "length (extractFromYaml (concat (replicate 50001 ''http://a '')))
        \<le> maxArguments eng"
      by (simp add: extractFromYaml_copies)
    show ?thesis
      using extractUrls_within_spread [OF pre2(1) pre2(2) sel2 small, where now = now]
      by (simp add: pre1(4) extractFromYaml_copies MAX_URL_COUNT_def)
  qed
  from one two show ?thesis
    by (simp add: length_copies extractFromYaml_copies)
qed

theorem truncation_lost_beyond_spread_witness:
  "extractUrls sampleEngine (importedExtractors sampleEngine sampleURL rejectAll rejectAll) 3
     (concat (replicate 200000 ''http://a '')) ''yaml'' None =
   Inr \<lparr>success = False, urls = [],
        errors = [\<lparr>category = Parsing, severity = Warning,
                   message = ''Maximum call stack size exceeded'', recoverable = True,
                   recoveryAction = Skip, timestamp = 3\<rparr>],
        fileType = FT_yaml\<rparr> \<and>
   extractUrls sampleEngine (importedExtractors sampleEngine sampleURL rejectAll rejectAll) 3
     (concat (replicate 50001 ''http://a '')) ''yaml'' None =
   Inr \<lparr>success = True,
        urls = take 50000 (extractFromYaml (concat (replicate 50001 ''http://a ''))),
        errors = [\<lparr>category = Parsing, severity = Warning,
                   message = truncatedMessage 50001, recoverable = True,
                   recoveryAction = Truncate, timestamp = 3\<rparr>],
        fileType = FT_yaml\<rparr>"
proof -
  have bounds: "maxArguments sampleEngine < 200000" "50001 \<le> maxArguments sampleEngine"
    and msg: "rangeErrorMessage sampleEngine = ''Maximum call stack size exceeded''"
    by (simp_all add: sampleEngine_def)
  from truncation_lost_beyond_spread [of sampleEngine sampleURL rejectAll rejectAll 3] bounds
  show ?thesis
    by (simp only: msg)
qed

text \<open>
  C3, as stated, fails. With the cancellation already requested, a document of 10,000,001
  characters gets the empty result: unsuccessful, no token, but no parse error at all.
\<close>

theorem size_ceiling_counterexample:
  "MAX_CONTENT_SIZE < length (replicate 10000001 CHR ''a'') \<and>
   extractUrls sampleEngine (importedExtractors sampleEngine sampleURL rejectAll rejectAll) 0
     (replicate 10000001 CHR ''a'') ''markdown'' (Some True) =
   Inr \<lparr>success = False, urls = [], errors = [], fileType = FT_unknown\<rparr>"
  by (simp add: MAX_CONTENT_SIZE_def extractUrls_def isCancellationRequested_def
      createEmptyResult_def)

text \<open>
  C3, amended. When no cancellation was requested, every document longer than 10,000,000
  characters gets, whatever the scanners are, the unsuccessful result with no token and
  exactly one recoverable parse error whose message states the size of the content; at
  exactly 10,000,000 characters that error is not among the errors of the result.
\<close>

theorem extractUrls_size_ceiling:
  "(\<not> isCancellationRequested tok \<and> MAX_CONTENT_SIZE < length content \<longrightarrow>
      extractUrls eng ex now content languageId tok =
        Inr \<lparr>success = False, urls = [],
             errors = [\<lparr>category = Parsing, severity = Warning,
                        message = contentTooLargeMessage (length content), recoverable = True,
                        recoveryAction = Truncate, timestamp = now\<rparr>],
             fileType = FT_unknown\<rparr>) \<and>
   (length content = MAX_CONTENT_SIZE \<longrightarrow>
      (case extractUrls eng ex now content languageId tok of
         Inr r \<Rightarrow>
           \<lparr>category = Parsing, severity = Warning,
            message = contentTooLargeMessage (length content), recoverable = True,
            recoveryAction = Truncate, timestamp = now\<rparr> \<notin> set (errors r)
       | Inl e \<Rightarrow> False))"
  by (auto simp: extractUrls_def Let_def extractUrlsByFileType_def pushSpread_def
      createSuccessResult_def
      createTruncatedResult_def createEmptyResult_def createErrorResult_def createParseError_def
      truncatedMessage_neq_contentTooLargeMessage
      truncatedMessage_neq_contentTooLargeMessage [symmetric]
      split: sum.splits if_splits)

theorem extractUrls_size_ceiling_witness:
  "extractUrls sampleEngine (importedExtractors sampleEngine sampleURL rejectAll rejectAll) 5
     (replicate 10000001 CHR ''a'') ''markdown'' None =
   Inr \<lparr>success = False, urls = [],
        errors = [\<lparr>category = Parsing, severity = Warning,
                   message = contentTooLargeMessage 10000001, recoverable = True,
                   recoveryAction = Truncate, timestamp = 5\<rparr>],
        fileType = FT_unknown\<rparr> \<and>
   (case extractUrls sampleEngine (importedExtractors sampleEngine sampleURL rejectAll rejectAll) 5
           (replicate 10000000 CHR ''a'') ''markdown'' None of
      Inr r \<Rightarrow>
        \<lparr>category = Parsing, severity = Warning,
         message = contentTooLargeMessage 10000000, recoverable = True,
         recoveryAction = Truncate, timestamp = 5\<rparr> \<notin> set (errors r)
    | Inl e \<Rightarrow> False)"
proof -
  let ?ex = "importedExtractors sampleEngine sampleURL rejectAll rejectAll"
  have over: "\<not> isCancellationRequested None \<and>
      MAX_CONTENT_SIZE < length (replicate 10000001 CHR ''a'')"
    by (simp add: isCancellationRequested_def MAX_CONTENT_SIZE_def)
  from extractUrls_size_ceiling
         [of None "replicate 10000001 CHR ''a''" sampleEngine ?ex 5 "''markdown''"] over
  have one: "extractUrls sampleEngine ?ex 5 (replicate 10000001 CHR ''a'') ''markdown'' None =
     Inr \<lparr>success = False, urls = [],
        errors = [\<lparr>category = Parsing, severity = Warning,
                   message = contentTooLargeMessage 10000001, recoverable = True,
                   recoveryAction = Truncate, timestamp = 5\<rparr>],
        fileType = FT_unknown\<rparr>"
    by simp
  have len: "length (replicate 10000000 CHR ''a'') = 10000000"
    by simp
  have at: "length (replicate 10000000 CHR ''a'') = MAX_CONTENT_SIZE"
    by (simp add: MAX_CONTENT_SIZE_def)
  have "length (replicate 10000000 CHR ''a'') = MAX_CONTENT_SIZE \<longrightarrow>
    (case extractUrls sampleEngine ?ex 5 (replicate 10000000 CHR ''a'') ''markdown'' None of
      Inr r \<Rightarrow>
        \<lparr>category = Parsing, severity = Warning,
         message = contentTooLargeMessage (length (replicate 10000000 CHR ''a'')),
         recoverable = True, recoveryAction = Truncate, timestamp = 5\<rparr> \<notin> set (errors r)
    | Inl e \<Rightarrow> False)"
    using extractUrls_size_ceiling
            [of None "replicate 10000000 CHR ''a''" sampleEngine ?ex 5 "''markdown''"]
    by (rule conjunct2)
  from this at
  have "(case extractUrls sampleEngine ?ex 5 (replicate 10000000 CHR ''a'') ''markdown'' None of
      Inr r \<Rightarrow>
        \<lparr>category = Parsing, severity = Warning,
         message = contentTooLargeMessage (length (replicate 10000000 CHR ''a'')),
         recoverable = True, recoveryAction = Truncate, timestamp = 5\<rparr> \<notin> set (errors r)
    | Inl e \<Rightarrow> False)"
    by (rule mp)
  then have two: "(case extractUrls sampleEngine ?ex 5 (replicate 10000000 CHR ''a'')
      ''markdown'' None of
      Inr r \<Rightarrow>
        \<lparr>category = Parsing, severity = Warning,
         message = contentTooLargeMessage 10000000, recoverable = True,
         recoveryAction = Truncate, timestamp = 5\<rparr> \<notin> set (errors r)
    | Inl e \<Rightarrow> False)"
    by (simp only: len)
  from one two show ?thesis by simp
qed

section \<open>Properties of the seen-set\<close>




lemma val_createUrl [simp]: "val (createUrl newURL url ln lineIndex columnIndex) = url"
  by (simp add: createUrl_def Let_def)


















section \<open>The protocol of a token\<close>

text \<open>
  C5. The YAML scanner writes the protocol \<open>https\<close> on every match of the pattern for
  \<open>http\<close> and \<open>https\<close>: the token of \<open>http://example.com\<close> carries \<open>https\<close>. The properties
  scanner, on the same line, reads the protocol off the match and answers \<open>http\<close>.
\<close>

theorem yaml_labels_http_as_https:
  "extractFromYaml ''url: http://example.com'' =
     [\<lparr>val = ''http://example.com'', protocol = Https, type = None, domain = None,
       path = None, position = Some \<lparr>line = 1, column = 6\<rparr>,
       ctx = Some ''url: http://example.com''\<rparr>] \<and>
   extractFromProperties ''url: http://example.com'' =
     [\<lparr>val = ''http://example.com'', protocol = Http, type = None, domain = None,
       path = None, position = Some \<lparr>line = 1, column = 6\<rparr>,
       ctx = Some ''url: http://example.com''\<rparr>]"
  by code_simp

section \<open>Failures inside a scanner\<close>















section \<open>Suppressed regions\<close>






lemma position_createUrl [simp]:
  "position (createUrl newURL url ln k m) = Some \<lparr>line = k + 1, column = m + 1\<rparr>"
  by (simp add: createUrl_def Let_def)





lemma splitLines_nonempty [simp]: "splitLines s \<noteq> []"
  by (induction s) (auto split: list.splits)














section \<open>Properties of the classifiers\<close>

lemma startsWith_Cons:
  "startsWith s (c # p) \<longleftrightarrow> (\<exists>r. s = c # r \<and> startsWith r p)"
  by (cases s) (auto simp: startsWith_def)

lemma startsWith_Nil [simp]: "startsWith s []"
  by (simp add: startsWith_def)

text \<open>
  C8, as stated, fails. A candidate with a leading space does not begin with any of the
  six prefixes, yet both classifiers recognise it: the prefix classifier trims first, and
  the parser of the platform strips leading spaces. And \<open>https://a.com\<close> is classified as
  \<open>https\<close>, the secure web scheme, not as \<open>http\<close>.
\<close>

theorem classifier_counterexample:
  "classifyUrlProtocol '' http://a.com'' = Http \<and>
   detectUrlProtocol sampleURL '' http://a.com'' = Http \<and>
   filter (startsWith (toLowerCase '' http://a.com'')) recognizedPrefixes = [] \<and>
   classifyUrlProtocol ''https://a.com'' = Https \<and>
   detectUrlProtocol sampleURL ''https://a.com'' = Https"
  by code_simp

text \<open>
  C8, amended. The prefix classifier answers a recognised scheme exactly when the
  candidate, trimmed of white space and put in lower case, begins with one of the six
  literal prefixes, and then the scheme of that prefix. The classifier built on the URL
  parser answers a recognised scheme exactly when the parser accepts the candidate with
  one of the six protocols; where the parser throws, it answers unrecognised and the
  components are null. Neither throws.
\<close>

theorem classifier_characterisation:
  "(classifyUrlProtocol s \<noteq> UnknownProtocol \<longleftrightarrow>
      (\<exists>p \<in> set recognizedPrefixes. startsWith (toLowerCase (trim s)) p)) \<and>
   (startsWith (toLowerCase (trim s)) ''https://'' \<longrightarrow> classifyUrlProtocol s = Https) \<and>
   (startsWith (toLowerCase (trim s)) ''http://'' \<longrightarrow> classifyUrlProtocol s = Http) \<and>
   (startsWith (toLowerCase (trim s)) ''ftp://'' \<longrightarrow> classifyUrlProtocol s = Ftp) \<and>
   (startsWith (toLowerCase (trim s)) ''file://'' \<longrightarrow> classifyUrlProtocol s = File) \<and>
   (startsWith (toLowerCase (trim s)) ''mailto:'' \<longrightarrow> classifyUrlProtocol s = Mailto) \<and>
   (startsWith (toLowerCase (trim s)) ''tel:'' \<longrightarrow> classifyUrlProtocol s = Tel) \<and>
   (detectUrlProtocol newURL s \<noteq> UnknownProtocol \<longleftrightarrow>
      (\<exists>u. newURL s = Some u \<and> url_protocol u \<in> set SUPPORTED_PROTOCOLS)) \<and>
   (newURL s = None \<longrightarrow>
      detectUrlProtocol newURL s = UnknownProtocol \<and> extractUrlComponents newURL s = None)"
proof -
  let ?t = "toLowerCase (trim s)"
  have excl: "\<not> (startsWith ?t ''https://'' \<and> startsWith ?t ''http://'')"
    "\<not> (startsWith ?t ''ftp://'' \<and> startsWith ?t ''file://'')"
    "\<not> (startsWith ?t ''https://'' \<and> startsWith ?t ''ftp://'')"
    by (auto simp: startsWith_Cons)
  have a: "classifyUrlProtocol s \<noteq> UnknownProtocol \<longleftrightarrow>
      (\<exists>p \<in> set recognizedPrefixes. startsWith ?t p)"
    by (simp add: classifyUrlProtocol_def recognizedPrefixes_def Let_def)
  have b: "startsWith ?t ''https://'' \<longrightarrow> classifyUrlProtocol s = Https"
    by (simp add: classifyUrlProtocol_def Let_def)
  have c: "startsWith ?t ''http://'' \<longrightarrow> classifyUrlProtocol s = Http"
    using excl by (simp add: classifyUrlProtocol_def Let_def)
  have d: "startsWith ?t ''ftp://'' \<longrightarrow> classifyUrlProtocol s = Ftp"
    by (auto simp: classifyUrlProtocol_def Let_def startsWith_Cons)
  have e: "startsWith ?t ''file://'' \<longrightarrow> classifyUrlProtocol s = File"
    by (auto simp: classifyUrlProtocol_def Let_def startsWith_Cons)
  have f: "startsWith ?t ''mailto:'' \<longrightarrow> classifyUrlProtocol s = Mailto"
    by (auto simp: classifyUrlProtocol_def Let_def startsWith_Cons)
  have g: "startsWith ?t ''tel:'' \<longrightarrow> classifyUrlProtocol s = Tel"
    by (auto simp: classifyUrlProtocol_def Let_def startsWith_Cons)
  have h: "detectUrlProtocol newURL s \<noteq> UnknownProtocol \<longleftrightarrow>
      (\<exists>u. newURL s = Some u \<and> url_protocol u \<in> set SUPPORTED_PROTOCOLS)"
    by (auto simp: detectUrlProtocol_def parseUrl_def mapProtocolToType_def
        SUPPORTED_PROTOCOLS_def split: option.splits if_splits)
  have i: "newURL s = None \<longrightarrow>
      detectUrlProtocol newURL s = UnknownProtocol \<and> extractUrlComponents newURL s = None"
    by (simp add: detectUrlProtocol_def extractUrlComponents_def parseUrl_def)
  from a b c d e f g h i show ?thesis by blast
qed

theorem classifier_characterisation_witness:
  "classifyUrlProtocol ''HTTPS://A.com'' = Https \<and>
   classifyUrlProtocol ''javascript:x'' = UnknownProtocol \<and>
   detectUrlProtocol sampleURL ''javascript:x'' = UnknownProtocol \<and>
   detectUrlProtocol sampleURL ''not a url'' = UnknownProtocol \<and>
   extractUrlComponents sampleURL ''not a url'' = None \<and>
   detectUrlProtocol sampleURL ''https://a.com'' = Https \<and>
   extractUrlComponents sampleURL ''https://a.com'' =
     Some \<lparr>c_protocol = Https, c_domain = ''a.com'', c_path = ''/''\<rparr>"
proof -
  have p: "startsWith (toLowerCase (trim ''HTTPS://A.com'')) ''https://''"
    by code_simp
  have n: "sampleURL ''not a url'' = None"
    by code_simp
  have rest: "classifyUrlProtocol ''javascript:x'' = UnknownProtocol \<and>
   detectUrlProtocol sampleURL ''javascript:x'' = UnknownProtocol \<and>
   detectUrlProtocol sampleURL ''https://a.com'' = Https \<and>
   extractUrlComponents sampleURL ''https://a.com'' =
     Some \<lparr>c_protocol = Https, c_domain = ''a.com'', c_path = ''/''\<rparr>"
    by code_simp
  from classifier_characterisation [of "''HTTPS://A.com''" sampleURL] p
  have one: "classifyUrlProtocol ''HTTPS://A.com'' = Https" by blast
  from classifier_characterisation [of "''not a url''" sampleURL] n
  have two: "detectUrlProtocol sampleURL ''not a url'' = UnknownProtocol \<and>
      extractUrlComponents sampleURL ''not a url'' = None" by blast
  from one two rest show ?thesis by blast
qed


section \<open>Properties of deduplication\<close>

lemma dedupLoop_firstOccurrences:
  "snd (dedupLoop us (seen, res)) = res @ firstOccurrences seen us"
  by (induction us arbitrary: seen res) auto

lemma deduplicateUrls_firstOccurrences: "deduplicateUrls us = firstOccurrences {} us"
  by (simp add: deduplicateUrls_def dedupLoop_firstOccurrences)

lemma firstOccurrences_keys:
  "normalizedValue ` set (firstOccurrences seen us) = normalizedValue ` set us - seen"
  by (induction us arbitrary: seen) auto

lemma firstOccurrences_distinct: "distinct (map normalizedValue (firstOccurrences seen us))"
proof (induction us arbitrary: seen)
  case Nil
  then show ?case by simp
next
  case (Cons u us)
  have "normalizedValue u \<notin> normalizedValue ` set (firstOccurrences (insert (normalizedValue u) seen) us)"
    by (simp add: firstOccurrences_keys)
  then show ?case using Cons.IH by auto
qed

lemma firstOccurrences_subseq: "subseq (firstOccurrences seen us) us"
  by (induction us arbitrary: seen) auto

lemma firstOccurrences_find:
  "u \<in> set (firstOccurrences seen us) \<Longrightarrow>
   find (\<lambda>v. normalizedValue v = normalizedValue u) us = Some u"
proof (induction us arbitrary: seen)
  case Nil
  then show ?case by simp
next
  case (Cons x us)
  show ?case
  proof (cases "normalizedValue x \<in> seen")
    case True
    with Cons.prems have u: "u \<in> set (firstOccurrences seen us)" by simp
    then have "normalizedValue u \<in> normalizedValue ` set us - seen"
      using firstOccurrences_keys [of seen us] by blast
    with True have "normalizedValue x \<noteq> normalizedValue u" by auto
    with Cons.IH [OF u] show ?thesis by simp
  next
    case False
    show ?thesis
    proof (cases "u = x")
      case True
      then show ?thesis by simp
    next
      case ne: False
      with Cons.prems False
      have u: "u \<in> set (firstOccurrences (insert (normalizedValue x) seen) us)" by simp
      then have "normalizedValue u \<in> normalizedValue ` set us - insert (normalizedValue x) seen"
        using firstOccurrences_keys [of "insert (normalizedValue x) seen" us] by blast
      then have "normalizedValue x \<noteq> normalizedValue u" by auto
      with Cons.IH [OF u] show ?thesis by simp
    qed
  qed
qed

lemma firstOccurrences_fixed:
  "distinct (map normalizedValue us) \<Longrightarrow> normalizedValue ` set us \<inter> seen = {} \<Longrightarrow>
   firstOccurrences seen us = us"
  by (induction us arbitrary: seen) auto

text \<open>
  C9. For every token list, \<open>deduplicateUrls\<close> keeps, of each value under trimmed,
  lower-case equality, exactly its first occurrence: the survivors have pairwise different
  normalised values, cover every normalised value of the input, and each is the first
  element of the input with its normalised value, unchanged (context included); they
  stand in their original relative order; and deduplicating again changes nothing.
\<close>

theorem deduplicateUrls_first_occurrence_idempotent:
  "distinct (map normalizedValue (deduplicateUrls us)) \<and>
   normalizedValue ` set (deduplicateUrls us) = normalizedValue ` set us \<and>
   (\<forall>u \<in> set (deduplicateUrls us).
      find (\<lambda>v. normalizedValue v = normalizedValue u) us = Some u) \<and>
   subseq (deduplicateUrls us) us \<and>
   deduplicateUrls (deduplicateUrls us) = deduplicateUrls us"
proof -
  have "firstOccurrences {} (firstOccurrences {} us) = firstOccurrences {} us"
    by (rule firstOccurrences_fixed) (simp_all add: firstOccurrences_distinct)
  then show ?thesis
    by (simp add: deduplicateUrls_firstOccurrences firstOccurrences_distinct
        firstOccurrences_keys firstOccurrences_subseq firstOccurrences_find)
qed

lemma dedupe_eval:
  "deduplicateUrls
     [sampleToken ''http://a.io'' ''http'' ''test1'', sampleToken ''http://b.io'' ''http'' ''test2'',
      sampleToken '' HTTP://A.IO'' ''http'' ''test3''] =
     [sampleToken ''http://a.io'' ''http'' ''test1'', sampleToken ''http://b.io'' ''http'' ''test2'']"
  by code_simp

theorem deduplicateUrls_first_occurrence_idempotent_witness:
  "find (\<lambda>v. normalizedValue v = normalizedValue (sampleToken ''http://a.io'' ''http'' ''test1''))
     [sampleToken ''http://a.io'' ''http'' ''test1'', sampleToken ''http://b.io'' ''http'' ''test2'',
      sampleToken '' HTTP://A.IO'' ''http'' ''test3''] =
     Some (sampleToken ''http://a.io'' ''http'' ''test1'') \<and>
   deduplicateUrls
     [sampleToken ''http://a.io'' ''http'' ''test1'', sampleToken ''http://b.io'' ''http'' ''test2'',
      sampleToken '' HTTP://A.IO'' ''http'' ''test3''] =
     [sampleToken ''http://a.io'' ''http'' ''test1'', sampleToken ''http://b.io'' ''http'' ''test2'']"
proof -
  let ?us = "[sampleToken ''http://a.io'' ''http'' ''test1'',
      sampleToken ''http://b.io'' ''http'' ''test2'', sampleToken '' HTTP://A.IO'' ''http'' ''test3'']"
  have "\<forall>u \<in> set (deduplicateUrls ?us).
      find (\<lambda>v. normalizedValue v = normalizedValue u) ?us = Some u"
    using deduplicateUrls_first_occurrence_idempotent [of ?us] by blast
  then have "find (\<lambda>v. normalizedValue v =
        normalizedValue (sampleToken ''http://a.io'' ''http'' ''test1'')) ?us =
      Some (sampleToken ''http://a.io'' ''http'' ''test1'')"
    by (simp only: dedupe_eval) simp
  then show ?thesis
    using dedupe_eval by (rule conjI)
qed

section \<open>Properties of sorting\<close>

lemma consistentD1: "consistent c \<Longrightarrow> (c a b < 0) = (0 < c b a)"
  by (simp add: consistent_def)

lemma consistentD2: "consistent c \<Longrightarrow> c a b \<le> 0 \<Longrightarrow> c b d \<le> 0 \<Longrightarrow> c a d \<le> 0"
  unfolding consistent_def by blast

lemma consistent_zero: "consistent c \<Longrightarrow> (c a b = 0) = (c b a = 0)"
  using consistentD1 [of c a b] consistentD1 [of c b a] by linarith

lemma consistent_total: "consistent c \<Longrightarrow> c a b \<le> 0 \<or> c b a \<le> 0"
  using consistentD1 [of c b a] by linarith

lemma consistent_lex:
  assumes kc: "consistent kc" and vc: "consistent vc"
  shows "consistent (\<lambda>a b. if kc (k a) (k b) \<noteq> 0 then kc (k a) (k b) else vc (v a) (v b))"
  unfolding consistent_def
proof (intro conjI allI impI)
  fix a b
  show "((if kc (k a) (k b) \<noteq> 0 then kc (k a) (k b) else vc (v a) (v b)) < 0) =
        (0 < (if kc (k b) (k a) \<noteq> 0 then kc (k b) (k a) else vc (v b) (v a)))"
    using consistentD1 [OF kc, of "k a" "k b"] consistentD1 [OF kc, of "k b" "k a"]
      consistentD1 [OF vc, of "v a" "v b"] consistent_zero [OF kc, of "k a" "k b"]
    by (auto split: if_splits)
next
  fix a b d
  let ?c = "\<lambda>a b. if kc (k a) (k b) \<noteq> 0 then kc (k a) (k b) else vc (v a) (v b)"
  assume h: "?c a b \<le> 0 \<and> ?c b d \<le> 0"
  have kab: "kc (k a) (k b) \<le> 0" and kbd: "kc (k b) (k d) \<le> 0"
    using h by (auto split: if_splits)
  have kad: "kc (k a) (k d) \<le> 0" by (rule consistentD2 [OF kc kab kbd])
  show "?c a d \<le> 0"
  proof (cases "kc (k a) (k d) = 0")
    case False
    then show ?thesis using kad by simp
  next
    case True
    then have kda: "kc (k d) (k a) \<le> 0" using consistent_zero [OF kc, of "k a" "k d"] by simp
    have "kc (k b) (k a) \<le> 0" by (rule consistentD2 [OF kc kbd kda])
    then have ab0: "kc (k a) (k b) = 0"
      using kab consistentD1 [OF kc, of "k a" "k b"] by linarith
    have "kc (k d) (k b) \<le> 0" by (rule consistentD2 [OF kc kda kab])
    then have bd0: "kc (k b) (k d) = 0"
      using kbd consistentD1 [OF kc, of "k b" "k d"] by linarith
    from h ab0 bd0 have "vc (v a) (v b) \<le> 0" "vc (v b) (v d) \<le> 0" by auto
    then have "vc (v a) (v d) \<le> 0" by (rule consistentD2 [OF vc])
    then show ?thesis using True by simp
  qed
qed

lemma consistent_key: "consistent c \<Longrightarrow> consistent (\<lambda>a b. c (k a) (k b))"
  unfolding consistent_def by blast

lemma consistent_length: "consistent (\<lambda>m n. int m - int (n::nat))"
  unfolding consistent_def by auto

lemma set_insertSorted [simp]: "set (insertSorted c x ys) = insert x (set ys)"
  by (induction ys) auto

lemma sorted_insertSorted:
  assumes c: "consistent c"
  shows "sorted_wrt (\<lambda>a b. c a b \<le> 0) ys \<Longrightarrow> sorted_wrt (\<lambda>a b. c a b \<le> 0) (insertSorted c x ys)"
proof (induction ys)
  case Nil
  then show ?case by simp
next
  case (Cons y ys)
  show ?case
  proof (cases "c x y \<le> 0")
    case True
    then have "\<forall>z \<in> set ys. c x z \<le> 0"
      using Cons.prems consistentD2 [OF c, of x y] by auto
    with True Cons.prems show ?thesis by simp
  next
    case False
    then have "c y x \<le> 0" using consistent_total [OF c, of x y] by simp
    with False Cons show ?thesis by auto
  qed
qed

lemma sorted_arraySort:
  "consistent c \<Longrightarrow> sorted_wrt (\<lambda>a b. c a b \<le> 0) (arraySort c xs)"
  by (induction xs) (simp_all add: arraySort_def sorted_insertSorted)

lemma arraySort_sorted_id:
  "sorted_wrt (\<lambda>a b. c a b \<le> 0) xs \<Longrightarrow> arraySort c xs = xs"
proof (induction xs)
  case Nil
  then show ?case by (simp add: arraySort_def)
next
  case (Cons x xs)
  then have "arraySort c xs = xs" by simp
  then have "arraySort c (x # xs) = insertSorted c x xs" by (simp add: arraySort_def)
  also have "\<dots> = x # xs" using Cons.prems by (cases xs) auto
  finally show ?case .
qed

lemma arraySort_idem: "consistent c \<Longrightarrow> arraySort c (arraySort c xs) = arraySort c xs"
  by (simp add: arraySort_sorted_id sorted_arraySort)

lemma mset_insertSorted [simp]: "mset (insertSorted c x ys) = add_mset x (mset ys)"
  by (induction ys) auto

lemma mset_arraySort: "mset (arraySort c xs) = mset xs"
  by (induction xs) (simp_all add: arraySort_def)

lemma consistent_compareValue: "consistent lc \<Longrightarrow> consistent (compareValue lc)"
  unfolding compareValue_def by (rule consistent_key)

lemma consistent_compareType: "consistent lc \<Longrightarrow> consistent (compareType lc)"
  unfolding compareType_def Let_def by (rule consistent_lex)

lemma consistent_compareDomain: "consistent lc \<Longrightarrow> consistent (compareDomain lc newURL)"
  unfolding compareDomain_def Let_def by (rule consistent_lex)

lemma consistent_compareLength: "consistent lc \<Longrightarrow> consistent (compareLength lc)"
  unfolding compareLength_def Let_def
  using consistent_lex [OF consistent_length, of lc "\<lambda>u. length (val u)" val] by simp

lemma ties_by_value:
  "compareValue lc a b = 0 \<Longrightarrow> lc (val a) (val b) = 0"
  "compareType lc a b = 0 \<Longrightarrow> lc (val a) (val b) = 0"
  "compareDomain lc newURL a b = 0 \<Longrightarrow> lc (val a) (val b) = 0"
  "compareLength lc a b = 0 \<Longrightarrow> lc (val a) (val b) = 0"
  by (auto simp: compareValue_def compareType_def compareDomain_def compareLength_def Let_def
      split: if_splits)

lemma filter_insertSorted:
  assumes "consistent c"
  shows "filter (\<lambda>y. c y a = 0) (insertSorted c x ys) = filter (\<lambda>y. c y a = 0) (x # ys)"
proof (induction ys)
  case Nil
  show ?case by simp
next
  case (Cons y ys)
  show ?case
  proof (cases "c x y \<le> 0")
    case True
    then show ?thesis by simp
  next
    case False
    have "\<not> (c x a = 0 \<and> c y a = 0)"
    proof
      assume h: "c x a = 0 \<and> c y a = 0"
      then have "c a y = 0"
        using consistent_zero [OF assms, of y a] by simp
      with h have "c x y \<le> 0"
        using consistentD2 [OF assms, of x a y] by simp
      with False show False ..
    qed
    with False Cons.IH show ?thesis by auto
  qed
qed

lemma filter_arraySort:
  "consistent c \<Longrightarrow> filter (\<lambda>y. c y a = 0) (arraySort c xs) = filter (\<lambda>y. c y a = 0) xs"
  by (induction xs) (simp_all add: arraySort_def filter_insertSorted)

lemma tie_eval:
  "compareValue codeUnitCompare (sampleToken ''https://a.com'' ''https'' ''first'')
     (sampleToken ''https://a.com'' ''https'' ''second'') = 0"
  "compareType codeUnitCompare (sampleToken ''https://a.com'' ''https'' ''first'')
     (sampleToken ''https://a.com'' ''https'' ''second'') = 0"
  "compareDomain codeUnitCompare sampleURL (sampleToken ''https://a.com'' ''https'' ''first'')
     (sampleToken ''https://a.com'' ''https'' ''second'') = 0"
  "compareLength codeUnitCompare (sampleToken ''https://a.com'' ''https'' ''first'')
     (sampleToken ''https://a.com'' ''https'' ''second'') = 0"
  by (simp_all add: compareValue_def compareType_def compareDomain_def compareLength_def
      typeOrUnknown_def getDomain_def sampleURL_def sampleToken_def)

text \<open>
  C10, as stated, fails. Two tokens with the same value, found at two places, are
  different tokens, and every mode compares them as equal, since a string ties with
  itself in every collation: no mode is a total order on tokens, and no tie between them
  is broken. Sorting leaves them in the order of the input, whichever it is.
\<close>

theorem sort_tie_counterexample:
  "sampleToken ''https://a.com'' ''https'' ''first''
     \<noteq> sampleToken ''https://a.com'' ''https'' ''second'' \<and>
   compareValue codeUnitCompare (sampleToken ''https://a.com'' ''https'' ''first'')
     (sampleToken ''https://a.com'' ''https'' ''second'') = 0 \<and>
   compareType codeUnitCompare (sampleToken ''https://a.com'' ''https'' ''first'')
     (sampleToken ''https://a.com'' ''https'' ''second'') = 0 \<and>
   compareDomain codeUnitCompare sampleURL (sampleToken ''https://a.com'' ''https'' ''first'')
     (sampleToken ''https://a.com'' ''https'' ''second'') = 0 \<and>
   compareLength codeUnitCompare (sampleToken ''https://a.com'' ''https'' ''first'')
     (sampleToken ''https://a.com'' ''https'' ''second'') = 0 \<and>
   sortUrls codeUnitCompare sampleURL
     [sampleToken ''https://a.com'' ''https'' ''first'',
      sampleToken ''https://a.com'' ''https'' ''second''] ByValue =
     [sampleToken ''https://a.com'' ''https'' ''first'',
      sampleToken ''https://a.com'' ''https'' ''second''] \<and>
   sortUrls codeUnitCompare sampleURL
     [sampleToken ''https://a.com'' ''https'' ''second'',
      sampleToken ''https://a.com'' ''https'' ''first''] ByValue =
     [sampleToken ''https://a.com'' ''https'' ''second'',
      sampleToken ''https://a.com'' ''https'' ''first'']"
  by (simp add: tie_eval arraySort_def)
     (simp add: sampleToken_def compareValue_def)

text \<open>
  C10, amended. For a consistent collation, every mode of \<open>sortUrls\<close> sorts by a consistent
  comparator, a total preorder in which two tokens tie only when their values tie in the
  collation: the result is a permutation of the input, sorted by the comparator, the
  tokens that tie with a given one keep the order they had in the input, and sorting the
  result again in the same mode gives the same list. By length, the lengths of the values
  never decrease, and among equal lengths the values ascend in the collation.
\<close>

theorem sortUrls_total_idempotent:
  assumes "consistent localeCompare"
  shows "sortUrls localeCompare newURL (sortUrls localeCompare newURL us sortBy) sortBy
           = sortUrls localeCompare newURL us sortBy \<and>
         mset (sortUrls localeCompare newURL us sortBy) = mset us \<and>
         (\<forall>c. comparatorOf localeCompare newURL sortBy = Some c \<longrightarrow>
            consistent c \<and> sorted_wrt (\<lambda>a b. c a b \<le> 0) (sortUrls localeCompare newURL us sortBy) \<and>
            (\<forall>a b. c a b = 0 \<longrightarrow> localeCompare (val a) (val b) = 0) \<and>
            (\<forall>a. filter (\<lambda>u. c u a = 0) (sortUrls localeCompare newURL us sortBy)
                   = filter (\<lambda>u. c u a = 0) us)) \<and>
         sorted_wrt (\<lambda>a b. length (val a) < length (val b) \<or>
                      (length (val a) = length (val b) \<and> localeCompare (val a) (val b) \<le> 0))
           (sortUrls localeCompare newURL us ByLength)"
proof -
  note c = consistent_compareValue [OF assms] consistent_compareType [OF assms]
    consistent_compareDomain [OF assms, of newURL] consistent_compareLength [OF assms]
  have idem: "sortUrls localeCompare newURL (sortUrls localeCompare newURL us sortBy) sortBy
           = sortUrls localeCompare newURL us sortBy"
    by (cases sortBy) (simp_all add: arraySort_idem c)
  have perm: "mset (sortUrls localeCompare newURL us sortBy) = mset us"
    by (cases sortBy) (simp_all add: mset_arraySort)
  have modes: "\<forall>c. comparatorOf localeCompare newURL sortBy = Some c \<longrightarrow>
            consistent c \<and> sorted_wrt (\<lambda>a b. c a b \<le> 0) (sortUrls localeCompare newURL us sortBy) \<and>
            (\<forall>a b. c a b = 0 \<longrightarrow> localeCompare (val a) (val b) = 0) \<and>
            (\<forall>a. filter (\<lambda>u. c u a = 0) (sortUrls localeCompare newURL us sortBy)
                   = filter (\<lambda>u. c u a = 0) us)"
    by (cases sortBy) (simp_all add: c sorted_arraySort ties_by_value filter_arraySort)
  have "sorted_wrt (\<lambda>a b. compareLength localeCompare a b \<le> 0)
          (sortUrls localeCompare newURL us ByLength)"
    by (simp add: sorted_arraySort c)
  then have len: "sorted_wrt (\<lambda>a b. length (val a) < length (val b) \<or>
                      (length (val a) = length (val b) \<and> localeCompare (val a) (val b) \<le> 0))
           (sortUrls localeCompare newURL us ByLength)"
    by (rule sorted_wrt_mono_rel [rotated])
       (auto simp: compareLength_def Let_def split: if_splits)
  from idem perm modes len show ?thesis by blast
qed

lemma codeUnitCompare_antisym: "(codeUnitCompare a b < 0) = (0 < codeUnitCompare b a)"
  by (induction a b rule: codeUnitCompare.induct) auto

lemma codeUnitCompare_trans:
  "codeUnitCompare a b \<le> 0 \<Longrightarrow> codeUnitCompare b d \<le> 0 \<Longrightarrow> codeUnitCompare a d \<le> 0"
proof (induction a b arbitrary: d rule: codeUnitCompare.induct)
  case 1
  then show ?case by simp
next
  case (2 y ys)
  then show ?case by (cases d) auto
next
  case (3 x xs)
  then show ?case by simp
next
  case (4 x xs y ys)
  show ?case
  proof (cases d)
    case Nil
    with "4.prems" show ?thesis by simp
  next
    case (Cons z zs)
    show ?thesis
    proof (cases "codeUnit x < codeUnit y")
      case True
      with "4.prems"(2) Cons show ?thesis by (auto split: if_splits)
    next
      case xy: False
      with "4.prems"(1) have eq: "codeUnit x = codeUnit y" and r: "codeUnitCompare xs ys \<le> 0"
        by (auto split: if_splits)
      show ?thesis
      proof (cases "codeUnit y < codeUnit z")
        case True
        with eq Cons show ?thesis by simp
      next
        case False
        with "4.prems"(2) Cons have eq2: "codeUnit y = codeUnit z"
          and r2: "codeUnitCompare ys zs \<le> 0"
          by (auto split: if_splits)
        from "4.IH" [OF _ _ r r2] xy eq have "codeUnitCompare xs zs \<le> 0" by simp
        with eq eq2 Cons show ?thesis by simp
      qed
    qed
  qed
qed

lemma consistent_codeUnitCompare: "consistent codeUnitCompare"
  unfolding consistent_def
proof (intro conjI allI impI)
  fix a b
  show "(codeUnitCompare a b < 0) = (0 < codeUnitCompare b a)"
    by (rule codeUnitCompare_antisym)
next
  fix a b d
  assume "codeUnitCompare a b \<le> 0 \<and> codeUnitCompare b d \<le> 0"
  then show "codeUnitCompare a d \<le> 0"
    using codeUnitCompare_trans by blast
qed

lemma sort_eval:
  "sortUrls codeUnitCompare sampleURL
     [sampleToken ''https://z.io'' ''https'' ''a'', sampleToken ''http://b.c'' ''http'' ''b'',
      sampleToken ''https://a.io'' ''https'' ''c''] ByLength =
     [sampleToken ''http://b.c'' ''http'' ''b'', sampleToken ''https://a.io'' ''https'' ''c'',
      sampleToken ''https://z.io'' ''https'' ''a'']"
  by (simp add: arraySort_def compareLength_def sampleToken_def codeUnit_def)

theorem sortUrls_total_idempotent_witness:
  "sortUrls codeUnitCompare sampleURL
     (sortUrls codeUnitCompare sampleURL
        [sampleToken ''https://z.io'' ''https'' ''a'', sampleToken ''http://b.c'' ''http'' ''b'',
         sampleToken ''https://a.io'' ''https'' ''c''] ByLength) ByLength =
   [sampleToken ''http://b.c'' ''http'' ''b'', sampleToken ''https://a.io'' ''https'' ''c'',
    sampleToken ''https://z.io'' ''https'' ''a'']"
  using sortUrls_total_idempotent [OF consistent_codeUnitCompare, of sampleURL
     "[sampleToken ''https://z.io'' ''https'' ''a'', sampleToken ''http://b.c'' ''http'' ''b'',
         sampleToken ''https://a.io'' ''https'' ''c'']" ByLength]
  by (simp only: sort_eval)


end
